theory Spec2Isabelle
  imports Main "HOL-Library.Word"
begin

section \<open>Go values and the standard-library calls of the codec\<close>

text \<open>
  The wire struct \<open>SimpleSettingValue\<close> carries its value in a Go \<open>interface{}\<close>.
  The provider stores a \<open>string\<close>, an \<open>int64\<close> or a \<open>bool\<close> there; a JSON response
  may also bring \<open>nil\<close>, a \<open>float64\<close>, a map or a slice.  The provider only ever formats
  such a value with \<open>fmt.Sprintf("%v", v)\<close> or tests it with \<open>v.(bool)\<close>, so a value of
  any other dynamic type is kept as \<open>VOther\<close> together with the text that \<open>%v\<close> prints
  for it.
\<close>

datatype go_value =
    VString string
  | VInt64 "64 word"
  | VBool bool
  | VNil
  | VOther string

subsection \<open>Decimal text of an int64\<close>

definition digit_char :: "nat \<Rightarrow> char" where
  "digit_char d = char_of (48 + d)"

fun show_nat :: "nat \<Rightarrow> string" where
  "show_nat n = (if n < 10 then [digit_char n] else show_nat (n div 10) @ [digit_char (n mod 10)])"

declare show_nat.simps [simp del]

definition format_int64 :: "64 word \<Rightarrow> string" where
  "format_int64 w = (let i = sint w in if i < 0 then CHR ''-'' # show_nat (nat (- i)) else show_nat (nat i))"

text \<open>\<open>fmt.Sprintf("%v", v)\<close> on the dynamic value \<open>v\<close>.\<close>

fun sprintf_v :: "go_value \<Rightarrow> string" where
  "sprintf_v (VString s) = s"
| "sprintf_v (VInt64 w) = format_int64 w"
| "sprintf_v (VBool b) = (if b then ''true'' else ''false'')"
| "sprintf_v VNil = ''<nil>''"
| "sprintf_v (VOther s) = s"

subsection \<open>\<open>strconv.ParseInt(s, 10, 64)\<close>\<close>

datatype num_err = ErrSyntax | ErrRange

definition maxUint64 :: nat where
  "maxUint64 = 18446744073709551615"

text \<open>
  The digit loop of \<open>ParseUint\<close> for base 10 and bit size 64: a byte that is not a decimal
  digit is a syntax error; \<open>n \<ge> maxUint64/10 + 1\<close> before the multiplication, or a sum
  beyond \<open>maxUint64\<close>, is a range error, reported as soon as it is met.
\<close>

fun parseUint_loop :: "nat \<Rightarrow> string \<Rightarrow> num_err + nat" where
  "parseUint_loop n [] = Inr n"
| "parseUint_loop n (c # cs) =
     (if \<not> (48 \<le> (of_char c :: nat) \<and> (of_char c :: nat) \<le> 57) then Inl ErrSyntax
      else if n \<ge> maxUint64 div 10 + 1 then Inl ErrRange
      else let n1 = n * 10 + ((of_char c :: nat) - 48)
           in if n1 > maxUint64 then Inl ErrRange else parseUint_loop n1 cs)"

definition ParseUint :: "string \<Rightarrow> num_err + nat" where
  "ParseUint s = (if s = [] then Inl ErrSyntax else parseUint_loop 0 s)"

definition ParseInt :: "string \<Rightarrow> num_err + 64 word" where
  "ParseInt s0 =
     (if s0 = [] then Inl ErrSyntax
      else let neg = (hd s0 = CHR ''-'');
               s = (if hd s0 = CHR ''+'' \<or> hd s0 = CHR ''-'' then tl s0 else s0)
           in case ParseUint s of
                Inl ErrSyntax \<Rightarrow> Inl ErrSyntax
              | Inl ErrRange \<Rightarrow> Inl ErrRange
              | Inr un \<Rightarrow>
                  if \<not> neg \<and> un \<ge> 2 ^ 63 then Inl ErrRange
                  else if neg \<and> un > 2 ^ 63 then Inl ErrRange
                  else Inr (word_of_int (if neg then - int un else int un)))"

subsection \<open>Library functions taken as parameters\<close>

text \<open>
  \<open>encoding/json\<close> and \<open>strconv.Quote\<close> are not part of the repository.  The codec is
  parameterised by them:
  \<^item> \<open>json_Unmarshal\<close> is \<open>json.Unmarshal([]byte(s), &values)\<close> for
    \<open>values []interface{}\<close>: the text of the error, or the decoded elements;
  \<^item> \<open>json_Marshal\<close> is \<open>json.Marshal(values)\<close> for \<open>values []string\<close>, which cannot fail;
  \<^item> \<open>strconv_Quote\<close> is the quoting that \<open>NumError.Error\<close> applies to its input.
\<close>

record golib =
  json_Unmarshal :: "string \<Rightarrow> string + go_value list"
  json_Marshal :: "string list \<Rightarrow> string"
  strconv_Quote :: "string \<Rightarrow> string"

text \<open>The text of the \<open>*strconv.NumError\<close> that \<open>ParseInt\<close> returns for input \<open>s\<close>.\<close>

definition NumError_Error :: "golib \<Rightarrow> string \<Rightarrow> num_err \<Rightarrow> string" where
  "NumError_Error L s e =
     ''strconv.ParseInt: parsing '' @ strconv_Quote L s @ '': '' @
     (case e of ErrSyntax \<Rightarrow> ''invalid syntax'' | ErrRange \<Rightarrow> ''value out of range'')"


section \<open>The declared model (Terraform side)\<close>

text \<open>
  A \<open>types.String\<close> is a \<open>string option\<close> (\<open>None\<close> is the null string) and a \<open>types.List\<close>
  is a \<open>list option\<close> (\<open>None\<close> is the null list).  \<open>SettingModel\<close> has the three fields of
  \<open>ChildSettingModel\<close> and the list of children.
\<close>

record ChildSettingModel =
  DefinitionID :: "string option"
  ValueType :: "string option"
  Value :: "string option"

record SettingModel = ChildSettingModel +
  Children :: "ChildSettingModel list option"

record SettingsCatalogPolicySettingsResourceModel =
  ID :: "string option"
  PolicyID :: "string option"
  Settings :: "SettingModel list option"

definition ValueString :: "string option \<Rightarrow> string" where
  "ValueString v = (case v of None \<Rightarrow> [] | Some s \<Rightarrow> s)"

section \<open>The wire model (\<open>clients\<close> package)\<close>

text \<open>
  A nil pointer is \<open>None\<close>.  A slice field is a list: every such field is tagged
  \<open>omitempty\<close> and the provider only takes its length and ranges over it, so a nil and an
  empty slice are the same list \<open>[]\<close>.
\<close>

datatype SimpleSettingValue =
  SimpleSettingValue (ssv_ODataType: string) (ssv_Value: go_value)

datatype SettingInstanceTemplateRef =
  SettingInstanceTemplateRef (SettingInstanceTemplateId: string)

datatype SettingsCatalogPolicySetting =
  SettingsCatalogPolicySetting
    (pcs_ODataType: string)
    (pcs_ID: string)
    (pcs_SettingInstance: "SettingInstance option")
and SettingInstance =
  SettingInstance
    (si_ODataType: string)
    (si_SettingDefinitionId: string)
    (si_SettingInstanceTemplateRef: "SettingInstanceTemplateRef option")
    (si_SimpleSettingValue: "SimpleSettingValue option")
    (si_ChoiceSettingValue: "ChoiceSettingValue option")
    (si_SimpleSettingCollectionValue: "SimpleSettingValue list")
    (si_GroupSettingValue: "GroupSettingValue option")
    (si_GroupSettingCollectionValue: "GroupSettingValue list")
and ChoiceSettingValue =
  ChoiceSettingValue
    (csv_ODataType: string)
    (csv_Value: string)
    (csv_Children: "SettingsCatalogPolicySetting list")
and GroupSettingValue =
  GroupSettingValue
    (gsv_ODataType: string)
    (gsv_Children: "SettingsCatalogPolicySetting list")

section \<open>Diagnostics, log and the state threaded through the provider\<close>

datatype Severity = SeverityError | SeverityWarning

record Diagnostic =
  severity :: Severity
  summary :: string
  detail :: string

definition HasError :: "Diagnostic list \<Rightarrow> bool" where
  "HasError ds = list_ex (\<lambda>d. severity d = SeverityError) ds"

text \<open>
  \<open>Diagnostics.AddError\<close> of terraform-plugin-framework appends an error diagnostic
  unless an equal one is in the collection already.
\<close>

definition AddError :: "string \<Rightarrow> string \<Rightarrow> Diagnostic list \<Rightarrow> Diagnostic list" where
  "AddError s d ds =
     (let x = \<lparr>severity = SeverityError, summary = s, detail = d\<rparr>
      in if x \<in> set ds then ds else ds @ [x])"

datatype LogLevel = LevelDebug | LevelWarn

record LogEntry =
  level :: LogLevel
  message :: string
  log_fields :: "(string \<times> go_value) list"

datatype json =
    JNull
  | JBool bool
  | JInt int
  | JString string
  | JArray "json list"
  | JObject "(string \<times> json) list"
  | JOther string

record Request =
  http_method :: string
  http_path :: string
  http_body :: "json option"

text \<open>
  \<open>diags\<close> is the \<open>*diag.Diagnostics\<close> every function receives, \<open>logs\<close> what \<open>tflog\<close> has
  written, \<open>requests\<close> the calls of \<open>GraphClient.doRequest\<close> made so far.
\<close>

record world =
  diags :: "Diagnostic list"
  logs :: "LogEntry list"
  requests :: "Request list"

definition addError :: "string \<Rightarrow> string \<Rightarrow> world \<Rightarrow> world" where
  "addError s d w = w\<lparr>diags := AddError s d (diags w)\<rparr>"

definition tflog :: "LogLevel \<Rightarrow> string \<Rightarrow> (string \<times> go_value) list \<Rightarrow> world \<Rightarrow> world" where
  "tflog l m fs w = w\<lparr>logs := logs w @ [\<lparr>level = l, message = m, log_fields = fs\<rparr>]\<rparr>"


section \<open>Encoding: declared settings to wire settings\<close>

abbreviation "odata_Setting \<equiv> ''#microsoft.graph.deviceManagementConfigurationSetting''"
abbreviation "odata_SimpleInstance \<equiv> ''#microsoft.graph.deviceManagementConfigurationSimpleSettingInstance''"
abbreviation "odata_ChoiceInstance \<equiv> ''#microsoft.graph.deviceManagementConfigurationChoiceSettingInstance''"
abbreviation "odata_CollectionInstance \<equiv> ''#microsoft.graph.deviceManagementConfigurationSimpleSettingCollectionInstance''"
abbreviation "odata_GroupInstance \<equiv> ''#microsoft.graph.deviceManagementConfigurationGroupSettingInstance''"
abbreviation "odata_StringValue \<equiv> ''#microsoft.graph.deviceManagementConfigurationStringSettingValue''"
abbreviation "odata_IntegerValue \<equiv> ''#microsoft.graph.deviceManagementConfigurationIntegerSettingValue''"
abbreviation "odata_BooleanValue \<equiv> ''#microsoft.graph.deviceManagementConfigurationBooleanSettingValue''"
abbreviation "odata_ChoiceValue \<equiv> ''#microsoft.graph.deviceManagementConfigurationChoiceSettingValue''"
abbreviation "odata_GroupValue \<equiv> ''#microsoft.graph.deviceManagementConfigurationGroupSettingValue''"

text \<open>\<open>fmt.Sprintf("Could not parse '%s' as integer: %s", value, err)\<close> and its JSON sibling.\<close>

definition msg_not_integer :: "string \<Rightarrow> string \<Rightarrow> string" where
  "msg_not_integer value err =
     ''Could not parse '' @ [CHR 0x27] @ value @ [CHR 0x27] @ '' as integer: '' @ err"

definition msg_not_json_array :: "string \<Rightarrow> string \<Rightarrow> string" where
  "msg_not_json_array value err =
     ''Could not parse '' @ [CHR 0x27] @ value @ [CHR 0x27] @ '' as JSON array: '' @ err"

text \<open>
  \<open>convertChildSetting\<close>: \<open>None\<close> is the nil it returns after a failed integer parse.  A
  value type outside the four cases of the switch leaves the instance with its definition
  id only.
\<close>

definition convertChildSetting ::
  "golib \<Rightarrow> ChildSettingModel \<Rightarrow> world \<Rightarrow> SettingsCatalogPolicySetting option \<times> world" where
  "convertChildSetting L child w =
     (let defId = ValueString (DefinitionID child);
          valueType = ValueString (ValueType child);
          value = ValueString (Value child);
          wrap = (\<lambda>childInstance. Some (SettingsCatalogPolicySetting odata_Setting [] (Some childInstance)))
      in if valueType = ''string'' then
           (wrap (SettingInstance odata_SimpleInstance defId None
                    (Some (SimpleSettingValue odata_StringValue (VString value))) None [] None []), w)
         else if valueType = ''integer'' then
           (case ParseInt value of
              Inl err \<Rightarrow>
                (None, addError ''Invalid Integer Value'' (msg_not_integer value (NumError_Error L value err)) w)
            | Inr intVal \<Rightarrow>
                (wrap (SettingInstance odata_SimpleInstance defId None
                         (Some (SimpleSettingValue odata_IntegerValue (VInt64 intVal))) None [] None []), w))
         else if valueType = ''boolean'' then
           (wrap (SettingInstance odata_SimpleInstance defId None
                    (Some (SimpleSettingValue odata_BooleanValue (VBool (value = ''true'')))) None [] None []), w)
         else if valueType = ''choice'' then
           (wrap (SettingInstance odata_ChoiceInstance defId None None
                    (Some (ChoiceSettingValue odata_ChoiceValue value [])) [] None []), w)
         else (wrap (SettingInstance [] defId None None None [] None []), w))"

text \<open>The loop over the children: a child that converted to nil is not appended.\<close>

fun convertChildren ::
  "golib \<Rightarrow> ChildSettingModel list \<Rightarrow> SettingsCatalogPolicySetting list \<Rightarrow> world
     \<Rightarrow> SettingsCatalogPolicySetting list \<times> world" where
  "convertChildren L [] acc w = (acc, w)"
| "convertChildren L (child # children) acc w =
     (case convertChildSetting L child w of
        (None, w') \<Rightarrow> convertChildren L children acc w'
      | (Some childSetting, w') \<Rightarrow> convertChildren L children (acc @ [childSetting]) w')"

text \<open>
  \<open>convertSettingInstance\<close>: \<open>None\<close> is a nil return.  For a choice or a group with
  children the function returns nil when the diagnostics already hold an error, whoever
  added it (\<open>ElementsAs\<close> itself adds none for a list of child objects).
\<close>

definition convertSettingInstance ::
  "golib \<Rightarrow> SettingModel \<Rightarrow> world \<Rightarrow> SettingInstance option \<times> world" where
  "convertSettingInstance L setting w =
     (let defId = ValueString (DefinitionID setting);
          valueType = ValueString (ValueType setting);
          value = ValueString (Value setting)
      in if valueType = ''string'' then
           (Some (SettingInstance odata_SimpleInstance defId None
                    (Some (SimpleSettingValue odata_StringValue (VString value))) None [] None []), w)
         else if valueType = ''integer'' then
           (case ParseInt value of
              Inl err \<Rightarrow>
                (None, addError ''Invalid Integer Value'' (msg_not_integer value (NumError_Error L value err)) w)
            | Inr intVal \<Rightarrow>
                (Some (SettingInstance odata_SimpleInstance defId None
                         (Some (SimpleSettingValue odata_IntegerValue (VInt64 intVal))) None [] None []), w))
         else if valueType = ''boolean'' then
           (Some (SettingInstance odata_SimpleInstance defId None
                    (Some (SimpleSettingValue odata_BooleanValue (VBool (value = ''true'')))) None [] None []), w)
         else if valueType = ''choice'' then
           (case Children setting of
              Some (c # cs) \<Rightarrow>
                if HasError (diags w) then (None, w)
                else (case convertChildren L (c # cs) [] w of
                        (children, w') \<Rightarrow>
                          (Some (SettingInstance odata_ChoiceInstance defId None None
                                   (Some (ChoiceSettingValue odata_ChoiceValue value children)) [] None []), w'))
            | _ \<Rightarrow>
                (Some (SettingInstance odata_ChoiceInstance defId None None
                         (Some (ChoiceSettingValue odata_ChoiceValue value [])) [] None []), w))
         else if valueType = ''collection'' then
           (case json_Unmarshal L value of
              Inl err \<Rightarrow>
                (None, addError ''Invalid Collection Value'' (msg_not_json_array value err) w)
            | Inr values \<Rightarrow>
                (Some (SettingInstance odata_CollectionInstance defId None None None
                         (map (\<lambda>v. SimpleSettingValue odata_StringValue (VString (sprintf_v v))) values)
                         None []), w))
         else if valueType = ''group'' then
           (case Children setting of
              Some (c # cs) \<Rightarrow>
                if HasError (diags w) then (None, w)
                else (case convertChildren L (c # cs) [] w of
                        (children, w') \<Rightarrow>
                          (Some (SettingInstance odata_GroupInstance defId None None None []
                                   (Some (GroupSettingValue odata_GroupValue children)) []), w'))
            | _ \<Rightarrow>
                (Some (SettingInstance odata_GroupInstance defId None None None []
                         (Some (GroupSettingValue odata_GroupValue [])) []), w))
         else (Some (SettingInstance [] defId None None None [] None []), w))"

text \<open>
  \<open>convertToAPISettings\<close>.  The result is a Go slice handed on to the client: \<open>None\<close> is the
  nil slice (the early return, and \<open>var apiSettings\<close> to which nothing was appended).  The
  loop appends one wire setting per declared setting, also when the instance is nil.
\<close>

fun convertToAPISettings_loop ::
  "golib \<Rightarrow> SettingModel list \<Rightarrow> SettingsCatalogPolicySetting list \<Rightarrow> world
     \<Rightarrow> SettingsCatalogPolicySetting list \<times> world" where
  "convertToAPISettings_loop L [] apiSettings w = (apiSettings, w)"
| "convertToAPISettings_loop L (setting # settings) apiSettings w =
     (case convertSettingInstance L setting w of
        (instance, w') \<Rightarrow>
          convertToAPISettings_loop L settings
            (apiSettings @ [SettingsCatalogPolicySetting odata_Setting [] instance]) w')"

definition convertToAPISettings ::
  "golib \<Rightarrow> SettingsCatalogPolicySettingsResourceModel \<Rightarrow> world
     \<Rightarrow> SettingsCatalogPolicySetting list option \<times> world" where
  "convertToAPISettings L data w =
     (if HasError (diags w) then (None, w)
      else case convertToAPISettings_loop L (case Settings data of None \<Rightarrow> [] | Some ss \<Rightarrow> ss) [] w of
             (apiSettings, w') \<Rightarrow> (if apiSettings = [] then None else Some apiSettings, w'))"

section \<open>Decoding: wire settings to declared settings\<close>

definition parseSimpleSettingValue :: "SimpleSettingValue option \<Rightarrow> string option \<times> string option" where
  "parseSimpleSettingValue p =
     (case p of
        None \<Rightarrow> (None, None)
      | Some ssv \<Rightarrow>
          if ssv_ODataType ssv = odata_StringValue then (Some ''string'', Some (sprintf_v (ssv_Value ssv)))
          else if ssv_ODataType ssv = odata_IntegerValue then (Some ''integer'', Some (sprintf_v (ssv_Value ssv)))
          else if ssv_ODataType ssv = odata_BooleanValue then
            (case ssv_Value ssv of
               VBool boolVal \<Rightarrow> (Some ''boolean'', Some (if boolVal then ''true'' else ''false''))
             | v \<Rightarrow> (Some ''boolean'', Some (sprintf_v v)))
          else (Some ''string'', Some (sprintf_v (ssv_Value ssv))))"

text \<open>
  \<open>parseChildSettings\<close>: the loop skips a child whose instance is nil or has neither a
  simple nor a choice value, without touching the diagnostics or the log.
\<close>

fun parseChildSettings_loop ::
  "SettingsCatalogPolicySetting list \<Rightarrow> ChildSettingModel list \<Rightarrow> ChildSettingModel list" where
  "parseChildSettings_loop [] children = children"
| "parseChildSettings_loop (apiChild # apiChildren) children =
     (case pcs_SettingInstance apiChild of
        None \<Rightarrow> parseChildSettings_loop apiChildren children
      | Some instance \<Rightarrow>
          if si_SimpleSettingValue instance \<noteq> None then
            (case parseSimpleSettingValue (si_SimpleSettingValue instance) of
               (vt, v) \<Rightarrow>
                 parseChildSettings_loop apiChildren
                   (children @ [\<lparr>DefinitionID = Some (si_SettingDefinitionId instance), ValueType = vt, Value = v\<rparr>]))
          else (case si_ChoiceSettingValue instance of
                  Some choice \<Rightarrow>
                    parseChildSettings_loop apiChildren
                      (children @ [\<lparr>DefinitionID = Some (si_SettingDefinitionId instance),
                                    ValueType = Some ''choice'', Value = Some (csv_Value choice)\<rparr>])
                | None \<Rightarrow> parseChildSettings_loop apiChildren children))"

definition parseChildSettings ::
  "SettingsCatalogPolicySetting list \<Rightarrow> world \<Rightarrow> ChildSettingModel list option \<times> world" where
  "parseChildSettings apiChildren w =
     (let children = parseChildSettings_loop apiChildren []
      in if children = [] then (None, w) else (Some children, w))"

text \<open>
  \<open>convertAPISettingsToModel\<close>.  The switch tests the four value fields in the order simple,
  choice, collection (by length), group; the default branch logs a warning and skips the
  element.
\<close>

fun convertAPISettingsToModel_loop ::
  "golib \<Rightarrow> SettingsCatalogPolicySetting list \<Rightarrow> SettingModel list \<Rightarrow> world
     \<Rightarrow> SettingModel list \<times> world" where
  "convertAPISettingsToModel_loop L [] settings w = (settings, w)"
| "convertAPISettingsToModel_loop L (apiSetting # apiSettings) settings w =
     (case pcs_SettingInstance apiSetting of
        None \<Rightarrow> convertAPISettingsToModel_loop L apiSettings settings w
      | Some instance \<Rightarrow>
          let defId = Some (si_SettingDefinitionId instance)
          in if si_SimpleSettingValue instance \<noteq> None then
               (case parseSimpleSettingValue (si_SimpleSettingValue instance) of
                  (vt, v) \<Rightarrow>
                    convertAPISettingsToModel_loop L apiSettings
                      (settings @ [\<lparr>DefinitionID = defId, ValueType = vt, Value = v, Children = None\<rparr>]) w)
             else
               (case si_ChoiceSettingValue instance of
                  Some choice \<Rightarrow>
                    (case (if length (csv_Children choice) > 0 then parseChildSettings (csv_Children choice) w
                           else (None, w)) of
                       (children, w') \<Rightarrow>
                         convertAPISettingsToModel_loop L apiSettings
                           (settings @ [\<lparr>DefinitionID = defId, ValueType = Some ''choice'',
                                         Value = Some (csv_Value choice), Children = children\<rparr>]) w')
                | None \<Rightarrow>
                    if length (si_SimpleSettingCollectionValue instance) > 0 then
                      convertAPISettingsToModel_loop L apiSettings
                        (settings @ [\<lparr>DefinitionID = defId, ValueType = Some ''collection'',
                                      Value = Some (json_Marshal L
                                                (map (\<lambda>v. sprintf_v (ssv_Value v))
                                                   (si_SimpleSettingCollectionValue instance))),
                                      Children = None\<rparr>]) w
                    else
                      (case si_GroupSettingValue instance of
                         Some grp \<Rightarrow>
                           (case (if length (gsv_Children grp) > 0 then parseChildSettings (gsv_Children grp) w
                                  else (None, w)) of
                              (children, w') \<Rightarrow>
                                convertAPISettingsToModel_loop L apiSettings
                                  (settings @ [\<lparr>DefinitionID = defId, ValueType = Some ''group'',
                                                Value = None, Children = children\<rparr>]) w')
                       | None \<Rightarrow>
                           convertAPISettingsToModel_loop L apiSettings settings
                             (tflog LevelWarn ''Unknown setting type''
                                [(''definition_id'', VString (si_SettingDefinitionId instance)),
                                 (''odata_type'', VString (si_ODataType instance))] w))))"

text \<open>The result is the null list when no element was decoded.\<close>

definition convertAPISettingsToModel ::
  "golib \<Rightarrow> SettingsCatalogPolicySetting list \<Rightarrow> world \<Rightarrow> SettingModel list option \<times> world" where
  "convertAPISettingsToModel L apiSettings w =
     (case convertAPISettingsToModel_loop L apiSettings [] w of
        (settings, w') \<Rightarrow> (if settings = [] then None else Some settings, w'))"


section \<open>The JSON form of the wire structs\<close>

text \<open>
  What \<open>json.Marshal\<close> makes of the wire structs, as a tree: the fields in declaration
  order under the names of their \<open>json\<close> tags; a field tagged \<open>omitempty\<close> is left out
  when it is the empty string, a nil pointer or a slice of length 0.  A value of another
  dynamic type is kept opaque.
\<close>

fun marshal_go_value :: "go_value \<Rightarrow> json" where
  "marshal_go_value (VString s) = JString s"
| "marshal_go_value (VInt64 w) = JInt (sint w)"
| "marshal_go_value (VBool b) = JBool b"
| "marshal_go_value VNil = JNull"
| "marshal_go_value (VOther s) = JOther s"

definition omitempty_string :: "string \<Rightarrow> string \<Rightarrow> (string \<times> json) list" where
  "omitempty_string k s = (if s = [] then [] else [(k, JString s)])"

definition marshal_SimpleSettingValue :: "SimpleSettingValue \<Rightarrow> json" where
  "marshal_SimpleSettingValue v =
     JObject [(''@odata.type'', JString (ssv_ODataType v)), (''value'', marshal_go_value (ssv_Value v))]"

definition marshal_SettingInstanceTemplateRef :: "SettingInstanceTemplateRef \<Rightarrow> json" where
  "marshal_SettingInstanceTemplateRef r =
     JObject (omitempty_string ''settingInstanceTemplateId'' (SettingInstanceTemplateId r))"

fun marshal_SettingsCatalogPolicySetting :: "SettingsCatalogPolicySetting \<Rightarrow> json"
  and marshal_SettingInstance :: "SettingInstance \<Rightarrow> json"
  and marshal_ChoiceSettingValue :: "ChoiceSettingValue \<Rightarrow> json"
  and marshal_GroupSettingValue :: "GroupSettingValue \<Rightarrow> json" where
  "marshal_SettingsCatalogPolicySetting (SettingsCatalogPolicySetting t i inst) =
     JObject (omitempty_string ''@odata.type'' t @ omitempty_string ''id'' i @
              [(''settingInstance'', case inst of None \<Rightarrow> JNull | Some x \<Rightarrow> marshal_SettingInstance x)])"
| "marshal_SettingInstance (SettingInstance t d tr ssv csv coll gsv gcoll) =
     JObject ([(''@odata.type'', JString t), (''settingDefinitionId'', JString d)] @
              (case tr of None \<Rightarrow> [] | Some r \<Rightarrow> [(''settingInstanceTemplateReference'', marshal_SettingInstanceTemplateRef r)]) @
              (case ssv of None \<Rightarrow> [] | Some v \<Rightarrow> [(''simpleSettingValue'', marshal_SimpleSettingValue v)]) @
              (case csv of None \<Rightarrow> [] | Some c \<Rightarrow> [(''choiceSettingValue'', marshal_ChoiceSettingValue c)]) @
              (if coll = [] then [] else [(''simpleSettingCollectionValue'', JArray (map marshal_SimpleSettingValue coll))]) @
              (case gsv of None \<Rightarrow> [] | Some g \<Rightarrow> [(''groupSettingValue'', marshal_GroupSettingValue g)]) @
              (if gcoll = [] then [] else [(''groupSettingCollectionValue'', JArray (map marshal_GroupSettingValue gcoll))]))"
| "marshal_ChoiceSettingValue (ChoiceSettingValue t v children) =
     JObject (omitempty_string ''@odata.type'' t @ [(''value'', JString v)] @
              (if children = [] then [] else [(''children'', JArray (map marshal_SettingsCatalogPolicySetting children))]))"
| "marshal_GroupSettingValue (GroupSettingValue t children) =
     JObject (omitempty_string ''@odata.type'' t @
              (if children = [] then [] else [(''children'', JArray (map marshal_SettingsCatalogPolicySetting children))]))"

section \<open>The Graph client\<close>

datatype GraphError =
  GraphError (ge_Code: string) (ge_Message: string) (ge_InnerError: "GraphError option")
             (ge_Details: "GraphError list")

fun GraphError_Error :: "GraphError \<Rightarrow> string" where
  "GraphError_Error (GraphError code msg inner details) =
     (case inner of
        Some e \<Rightarrow> code @ '': '' @ msg @ '' (inner: '' @ GraphError_Error e @ '')''
      | None \<Rightarrow> code @ '': '' @ msg)"

text \<open>
  A Go \<open>error\<close>: a \<open>*GraphError\<close>, the \<open>*fmt.wrapError\<close> that \<open>fmt.Errorf\<close> with \<open>%w\<close>
  builds (its text and the error it wraps), or any other error by its text.
\<close>

datatype go_error =
    ErrGraph GraphError
  | ErrWrap string go_error
  | ErrOther string

fun go_error_Error :: "go_error \<Rightarrow> string" where
  "go_error_Error (ErrGraph e) = GraphError_Error e"
| "go_error_Error (ErrWrap s e) = s"
| "go_error_Error (ErrOther s) = s"

definition Errorf_w :: "string \<Rightarrow> go_error \<Rightarrow> go_error" where
  "Errorf_w prefix err = ErrWrap (prefix @ go_error_Error err) err"

text \<open>The type assertion \<open>err.(*clients.GraphError)\<close> followed by the test of the code.\<close>

definition is_NotFound :: "go_error \<Rightarrow> bool" where
  "is_NotFound err = (case err of ErrGraph g \<Rightarrow> ge_Code g = ''NotFound'' | _ \<Rightarrow> False)"

record GraphResponse =
  gr_ODataContext :: string
  gr_ODataType :: string
  gr_ODataNextLink :: string
  gr_Value :: "json option"
  gr_ID :: string
  gr_Error :: "GraphError option"

datatype SettingsCatalogTemplateReference =
  SettingsCatalogTemplateReference (TemplateId: string) (TemplateFamily: string)
    (TemplateDisplayName: string) (TemplateDisplayVersion: string)

datatype SettingsCatalogPolicy =
  SettingsCatalogPolicy
    (pol_ODataType: string) (pol_ID: string) (pol_Name: string) (pol_Description: string)
    (pol_Platforms: string) (pol_Technologies: string) (pol_CreatedDateTime: string)
    (pol_LastModifiedDateTime: string) (pol_RoleScopeTagIds: "string list") (pol_SettingCount: int)
    (pol_Settings: "SettingsCatalogPolicySetting list")
    (pol_TemplateReference: "SettingsCatalogTemplateReference option")

text \<open>
  The service behind the client is a parameter: \<open>roundTrip\<close> is what \<open>doRequest\<close> returns
  for a request (token, HTTP exchange and parsing of the answer included).  The raw
  \<open>value\<close> of a response is kept as the JSON tree it holds, \<open>None\<close> when it is empty.
  \<open>json_member\<close> is what \<open>json.Unmarshal\<close> does with an object member that the model of
  \<open>Unmarshal_policy\<close> below does not decode itself: the text of the error, or the policy
  with the member stored.
\<close>

record GraphClient =
  roundTrip :: "Request \<Rightarrow> go_error + GraphResponse"
  json_member :: "string \<Rightarrow> json \<Rightarrow> SettingsCatalogPolicy \<Rightarrow> string + SettingsCatalogPolicy"

definition doRequest ::
  "GraphClient \<Rightarrow> string \<Rightarrow> string \<Rightarrow> json option \<Rightarrow> world \<Rightarrow> (go_error + GraphResponse) \<times> world" where
  "doRequest c m p b w =
     (let req = \<lparr>http_method = m, http_path = p, http_body = b\<rparr>
      in (roundTrip c req, w\<lparr>requests := requests w @ [req]\<rparr>))"

definition Put :: "GraphClient \<Rightarrow> string \<Rightarrow> json \<Rightarrow> world \<Rightarrow> (go_error + GraphResponse) \<times> world" where
  "Put c p b w = doRequest c ''PUT'' p (Some b) w"

definition client_Delete :: "GraphClient \<Rightarrow> string \<Rightarrow> world \<Rightarrow> go_error option \<times> world" where
  "client_Delete c p w =
     (case doRequest c ''DELETE'' p None w of
        (Inl err, w') \<Rightarrow> (Some err, w')
      | (Inr _, w') \<Rightarrow> (None, w'))"

definition Get :: "GraphClient \<Rightarrow> string \<Rightarrow> world \<Rightarrow> (go_error + GraphResponse) \<times> world" where
  "Get c p w = doRequest c ''GET'' p None w"

abbreviation "PathSettingsCatalogPolicies \<equiv> ''/deviceManagement/configurationPolicies''"

text \<open>\<open>fmt.Sprintf("%s('%s')", PathSettingsCatalogPolicies, id)\<close>.\<close>

definition policy_path :: "string \<Rightarrow> string" where
  "policy_path policyId = PathSettingsCatalogPolicies @ ''('' @ [CHR 0x27] @ policyId @ [CHR 0x27] @ '')''"

text \<open>
  \<open>json.Marshal(resp)\<close> for a \<open>*GraphResponse\<close>: the members in declaration order, every one
  of them tagged \<open>omitempty\<close>.
\<close>

fun marshal_GraphError :: "GraphError \<Rightarrow> json" where
  "marshal_GraphError (GraphError code msg inner details) =
     JObject ([(''code'', JString code), (''message'', JString msg)] @
              (case inner of None \<Rightarrow> [] | Some e \<Rightarrow> [(''innerError'', marshal_GraphError e)]) @
              (if details = [] then [] else [(''details'', JArray (map marshal_GraphError details))]))"

definition marshal_GraphResponse :: "GraphResponse \<Rightarrow> (string \<times> json) list" where
  "marshal_GraphResponse r =
     omitempty_string ''@odata.context'' (gr_ODataContext r) @
     omitempty_string ''@odata.type'' (gr_ODataType r) @
     omitempty_string ''@odata.nextLink'' (gr_ODataNextLink r) @
     (case gr_Value r of None \<Rightarrow> [] | Some v \<Rightarrow> [(''value'', v)]) @
     omitempty_string ''id'' (gr_ID r) @
     (case gr_Error r of None \<Rightarrow> [] | Some e \<Rightarrow> [(''error'', marshal_GraphError e)])"

text \<open>
  \<open>json.Unmarshal(respBytes, &policy)\<close> for a \<open>SettingsCatalogPolicy\<close>.  The decoder takes
  the members of the object in order and stores each in the struct field whose \<open>json\<close> tag
  is the member's name up to the case of its letters; a member whose name matches no tag
  is ignored.  The model decodes a string into a string field itself.  Everything else (a
  value of another kind, a field that is not a string, a name with a byte outside ASCII,
  whose folding is the library's) is left to \<open>json_member\<close>.  An error does not stop the
  decoder: the first one is returned at the end.
\<close>

datatype policy_field =
    F_ODataType | F_ID | F_Name | F_Description | F_Platforms | F_Technologies
  | F_CreatedDateTime | F_LastModifiedDateTime | F_RoleScopeTagIds | F_SettingCount
  | F_Settings | F_TemplateReference

definition policy_tags :: "(string \<times> policy_field) list" where
  "policy_tags =
     [(''@odata.type'', F_ODataType), (''id'', F_ID), (''name'', F_Name),
      (''description'', F_Description), (''platforms'', F_Platforms),
      (''technologies'', F_Technologies), (''createdDateTime'', F_CreatedDateTime),
      (''lastModifiedDateTime'', F_LastModifiedDateTime), (''roleScopeTagIds'', F_RoleScopeTagIds),
      (''settingCount'', F_SettingCount), (''settings'', F_Settings),
      (''templateReference'', F_TemplateReference)]"

definition ascii_lower :: "char \<Rightarrow> char" where
  "ascii_lower c =
     (if 65 \<le> (of_char c :: nat) \<and> (of_char c :: nat) \<le> 90 then char_of ((of_char c :: nat) + 32) else c)"

definition field_of_key :: "string \<Rightarrow> policy_field option" where
  "field_of_key k = map_of (map (\<lambda>(t, f). (map ascii_lower t, f)) policy_tags) (map ascii_lower k)"

fun set_string_field :: "policy_field \<Rightarrow> string \<Rightarrow> SettingsCatalogPolicy \<Rightarrow> SettingsCatalogPolicy option" where
  "set_string_field F_ODataType s (SettingsCatalogPolicy a b c d e f g h i j k l) =
     Some (SettingsCatalogPolicy s b c d e f g h i j k l)"
| "set_string_field F_ID s (SettingsCatalogPolicy a b c d e f g h i j k l) =
     Some (SettingsCatalogPolicy a s c d e f g h i j k l)"
| "set_string_field F_Name s (SettingsCatalogPolicy a b c d e f g h i j k l) =
     Some (SettingsCatalogPolicy a b s d e f g h i j k l)"
| "set_string_field F_Description s (SettingsCatalogPolicy a b c d e f g h i j k l) =
     Some (SettingsCatalogPolicy a b c s e f g h i j k l)"
| "set_string_field F_Platforms s (SettingsCatalogPolicy a b c d e f g h i j k l) =
     Some (SettingsCatalogPolicy a b c d s f g h i j k l)"
| "set_string_field F_Technologies s (SettingsCatalogPolicy a b c d e f g h i j k l) =
     Some (SettingsCatalogPolicy a b c d e s g h i j k l)"
| "set_string_field F_CreatedDateTime s (SettingsCatalogPolicy a b c d e f g h i j k l) =
     Some (SettingsCatalogPolicy a b c d e f s h i j k l)"
| "set_string_field F_LastModifiedDateTime s (SettingsCatalogPolicy a b c d e f g h i j k l) =
     Some (SettingsCatalogPolicy a b c d e f g s i j k l)"
| "set_string_field F_RoleScopeTagIds s p = None"
| "set_string_field F_SettingCount s p = None"
| "set_string_field F_Settings s p = None"
| "set_string_field F_TemplateReference s p = None"

definition unmarshal_member ::
  "GraphClient \<Rightarrow> string \<times> json \<Rightarrow> SettingsCatalogPolicy \<Rightarrow> string + SettingsCatalogPolicy" where
  "unmarshal_member c m p =
     (let k = fst m; v = snd m
      in if \<not> list_all (\<lambda>ch. (of_char ch :: nat) < 128) k then json_member c k v p
         else case field_of_key k of
                None \<Rightarrow> Inr p
              | Some f \<Rightarrow>
                  (case v of
                     JString s \<Rightarrow>
                       (case set_string_field f s p of Some p' \<Rightarrow> Inr p' | None \<Rightarrow> json_member c k v p)
                   | _ \<Rightarrow> json_member c k v p))"

fun unmarshal_members ::
  "GraphClient \<Rightarrow> (string \<times> json) list \<Rightarrow> SettingsCatalogPolicy \<Rightarrow> string option
     \<Rightarrow> SettingsCatalogPolicy \<times> string option" where
  "unmarshal_members c [] p err = (p, err)"
| "unmarshal_members c (m # ms) p err =
     (case unmarshal_member c m p of
        Inl e \<Rightarrow> unmarshal_members c ms p (case err of None \<Rightarrow> Some e | Some e0 \<Rightarrow> Some e0)
      | Inr p' \<Rightarrow> unmarshal_members c ms p' err)"

definition Unmarshal_policy :: "GraphClient \<Rightarrow> (string \<times> json) list \<Rightarrow> string + SettingsCatalogPolicy" where
  "Unmarshal_policy c ms =
     (case unmarshal_members c ms (SettingsCatalogPolicy [] [] [] [] [] [] [] [] [] 0 [] None) None of
        (p, None) \<Rightarrow> Inr p
      | (p, Some e) \<Rightarrow> Inl e)"

text \<open>
  \<open>GetSettingsCatalogPolicy\<close>: the answer of the GET is marshalled again and the policy is
  read from that text.
\<close>

definition GetSettingsCatalogPolicy ::
  "GraphClient \<Rightarrow> string \<Rightarrow> world \<Rightarrow> (go_error + SettingsCatalogPolicy) \<times> world" where
  "GetSettingsCatalogPolicy c policyId w =
     (case Get c (policy_path policyId @ ''?$expand=settings'') w of
        (Inl err, w') \<Rightarrow> (Inl (Errorf_w ''failed to get settings catalog policy: '' err), w')
      | (Inr resp, w') \<Rightarrow>
          (case Unmarshal_policy c (marshal_GraphResponse resp) of
             Inl e \<Rightarrow> (Inl (Errorf_w ''failed to parse policy: '' (ErrOther e)), w')
           | Inr policy \<Rightarrow>
               (case policy of
                  SettingsCatalogPolicy t i n d pl te cr lm rs sc st tr \<Rightarrow>
                    (Inr (SettingsCatalogPolicy t (if i = [] then gr_ID resp else i) n d pl te cr lm rs sc st tr),
                     w'))))"

definition DeleteSettingsCatalogPolicy :: "GraphClient \<Rightarrow> string \<Rightarrow> world \<Rightarrow> go_error option \<times> world" where
  "DeleteSettingsCatalogPolicy c policyId w = client_Delete c (policy_path policyId) w"

text \<open>
  \<open>UpdateSettingsCatalogPolicySettings\<close>: the body is the map with the one key
  \<open>settings\<close>; a nil slice (\<open>None\<close>) is marshalled as \<open>null\<close>, any other slice as an array.
\<close>

definition UpdateSettingsCatalogPolicySettings ::
  "GraphClient \<Rightarrow> string \<Rightarrow> SettingsCatalogPolicySetting list option \<Rightarrow> world \<Rightarrow> go_error option \<times> world" where
  "UpdateSettingsCatalogPolicySettings c policyId settings w =
     (let p = policy_path policyId @ ''/settings'';
          b = JObject [(''settings'',
                 case settings of None \<Rightarrow> JNull
                 | Some xs \<Rightarrow> JArray (map marshal_SettingsCatalogPolicySetting xs))]
      in case Put c p b w of
           (Inl err, w') \<Rightarrow> (Some (Errorf_w ''failed to update settings catalog policy settings: '' err), w')
         | (Inr _, w') \<Rightarrow> (None, w'))"

section \<open>The resource: Create, Read, Update, Delete\<close>

text \<open>
  \<open>Diagnostics.Append\<close> adds each diagnostic that is not in the collection yet.  What the
  framework hands in (\<open>req.Plan.Get\<close>, \<open>req.State.Get\<close>) is an argument: the
  diagnostics of the call and the decoded model.  What the function does to the state is its
  result.
\<close>

definition Append :: "Diagnostic list \<Rightarrow> Diagnostic list \<Rightarrow> Diagnostic list" where
  "Append ds new = foldl (\<lambda>acc d. if d \<in> set acc then acc else acc @ [d]) ds new"

datatype state_action =
    StateUntouched
  | RemoveResource
  | StateSet SettingsCatalogPolicySettingsResourceModel

definition Create ::
  "golib \<Rightarrow> GraphClient \<Rightarrow> Diagnostic list \<times> SettingsCatalogPolicySettingsResourceModel \<Rightarrow> world
     \<Rightarrow> state_action \<times> world" where
  "Create L c plan w0 =
     (let w1 = w0\<lparr>diags := Append (diags w0) (fst plan)\<rparr>; data = snd plan
      in if HasError (diags w1) then (StateUntouched, w1)
         else let policyID = ValueString (PolicyID data);
                  w2 = tflog LevelDebug ''Creating Settings Catalog policy settings''
                         [(''policy_id'', VString policyID)] w1
              in case convertToAPISettings L data w2 of
                   (apiSettings, w3) \<Rightarrow>
                     if HasError (diags w3) then (StateUntouched, w3)
                     else (case UpdateSettingsCatalogPolicySettings c policyID apiSettings w3 of
                             (Some err, w4) \<Rightarrow>
                               (StateUntouched,
                                addError ''Error Creating Settings Catalog Policy Settings''
                                  (''Could not update policy settings: '' @ go_error_Error err) w4)
                           | (None, w4) \<Rightarrow>
                               (StateSet (data\<lparr>ID := PolicyID data\<rparr>),
                                tflog LevelDebug ''Created Settings Catalog policy settings''
                                  [(''policy_id'', VString policyID)] w4)))"

definition Read ::
  "golib \<Rightarrow> GraphClient \<Rightarrow> Diagnostic list \<times> SettingsCatalogPolicySettingsResourceModel \<Rightarrow> world
     \<Rightarrow> state_action \<times> world" where
  "Read L c state w0 =
     (let w1 = w0\<lparr>diags := Append (diags w0) (fst state)\<rparr>; data = snd state
      in if HasError (diags w1) then (StateUntouched, w1)
         else let policyID = ValueString (PolicyID data);
                  w2 = tflog LevelDebug ''Reading Settings Catalog policy settings''
                         [(''policy_id'', VString policyID)] w1
              in case GetSettingsCatalogPolicy c policyID w2 of
                   (Inl err, w3) \<Rightarrow>
                     if is_NotFound err then (RemoveResource, w3)
                     else (StateUntouched,
                           addError ''Error Reading Settings Catalog Policy Settings''
                             (''Could not read policy ID '' @ policyID @ '': '' @ go_error_Error err) w3)
                 | (Inr policy, w3) \<Rightarrow>
                     if length (pol_Settings policy) = 0 then (RemoveResource, w3)
                     else (case convertAPISettingsToModel L (pol_Settings policy) w3 of
                             (settings, w4) \<Rightarrow>
                               if HasError (diags w4) then (StateUntouched, w4)
                               else (StateSet (data\<lparr>Settings := settings\<rparr>),
                                     tflog LevelDebug ''Read Settings Catalog policy settings''
                                       [(''policy_id'', VString policyID),
                                        (''settings_count'', VInt64 (of_nat (length (pol_Settings policy))))] w4)))"

definition Update ::
  "golib \<Rightarrow> GraphClient \<Rightarrow> Diagnostic list \<times> SettingsCatalogPolicySettingsResourceModel \<Rightarrow> world
     \<Rightarrow> state_action \<times> world" where
  "Update L c plan w0 =
     (let w1 = w0\<lparr>diags := Append (diags w0) (fst plan)\<rparr>; data = snd plan
      in if HasError (diags w1) then (StateUntouched, w1)
         else let policyID = ValueString (PolicyID data);
                  w2 = tflog LevelDebug ''Updating Settings Catalog policy settings''
                         [(''policy_id'', VString policyID)] w1
              in case convertToAPISettings L data w2 of
                   (apiSettings, w3) \<Rightarrow>
                     if HasError (diags w3) then (StateUntouched, w3)
                     else (case UpdateSettingsCatalogPolicySettings c policyID apiSettings w3 of
                             (Some err, w4) \<Rightarrow>
                               (StateUntouched,
                                addError ''Error Updating Settings Catalog Policy Settings''
                                  (''Could not update policy settings: '' @ go_error_Error err) w4)
                           | (None, w4) \<Rightarrow> (StateSet data, w4)))"

text \<open>
  \<open>Delete\<close> only reports diagnostics; the framework drops the state after it.
\<close>

definition Delete ::
  "GraphClient \<Rightarrow> Diagnostic list \<times> SettingsCatalogPolicySettingsResourceModel \<Rightarrow> world \<Rightarrow> world" where
  "Delete c state w0 =
     (let w1 = w0\<lparr>diags := Append (diags w0) (fst state)\<rparr>; data = snd state
      in if HasError (diags w1) then w1
         else let policyID = ValueString (PolicyID data);
                  w2 = tflog LevelDebug ''Deleting Settings Catalog policy settings''
                         [(''policy_id'', VString policyID)] w1
              in case UpdateSettingsCatalogPolicySettings c policyID (Some []) w2 of
                   (Some err, w3) \<Rightarrow>
                     if is_NotFound err then w3
                     else addError ''Error Deleting Settings Catalog Policy Settings''
                            (''Could not clear policy settings: '' @ go_error_Error err) w3
                 | (None, w3) \<Rightarrow> w3)"


section \<open>Canonical declared settings\<close>

text \<open>
  The declared settings that decoding can give back.  An integer is canonical when it is
  the decimal text \<open>ParseInt\<close> accepts and \<open>%v\<close> prints again; a collection when its value
  is the JSON text that \<open>json.Marshal\<close> prints for its (at least one) elements; scalars
  and collections have no children (the null or the empty list); a group has the null
  value, every other kind a value.  Decoding never returns the empty list of children:
  \<open>decoded_children\<close> is the list it returns for a declared list.
\<close>

definition canonical_integer :: "string \<Rightarrow> bool" where
  "canonical_integer v = (case ParseInt v of Inr n \<Rightarrow> format_int64 n = v | Inl e \<Rightarrow> False)"

definition canonical_child :: "ChildSettingModel \<Rightarrow> bool" where
  "canonical_child c =
     (DefinitionID c \<noteq> None \<and>
      (case Value c of
         None \<Rightarrow> False
       | Some v \<Rightarrow>
           ValueType c = Some ''string''
           \<or> (ValueType c = Some ''integer'' \<and> canonical_integer v)
           \<or> (ValueType c = Some ''boolean'' \<and> (v = ''true'' \<or> v = ''false''))
           \<or> ValueType c = Some ''choice''))"

definition canonical_children :: "ChildSettingModel list option \<Rightarrow> bool" where
  "canonical_children cs = (case cs of None \<Rightarrow> True | Some xs \<Rightarrow> list_all canonical_child xs)"

definition no_children :: "ChildSettingModel list option \<Rightarrow> bool" where
  "no_children cs = (cs = None \<or> cs = Some [])"

definition decoded_children :: "ChildSettingModel list option \<Rightarrow> ChildSettingModel list option" where
  "decoded_children cs = (if cs = Some [] then None else cs)"

definition canonical_collection :: "golib \<Rightarrow> string \<Rightarrow> bool" where
  "canonical_collection L v =
     (case json_Unmarshal L v of
        Inl e \<Rightarrow> False
      | Inr values \<Rightarrow> values \<noteq> [] \<and> json_Marshal L (map sprintf_v values) = v)"

definition canonical_setting :: "golib \<Rightarrow> SettingModel \<Rightarrow> bool" where
  "canonical_setting L s =
     (DefinitionID s \<noteq> None \<and>
      (if ValueType s = Some ''string'' then Value s \<noteq> None \<and> no_children (Children s)
       else if ValueType s = Some ''integer'' then
         (case Value s of None \<Rightarrow> False | Some v \<Rightarrow> canonical_integer v) \<and> no_children (Children s)
       else if ValueType s = Some ''boolean'' then
         (Value s = Some ''true'' \<or> Value s = Some ''false'') \<and> no_children (Children s)
       else if ValueType s = Some ''choice'' then Value s \<noteq> None \<and> canonical_children (Children s)
       else if ValueType s = Some ''collection'' then
         (case Value s of None \<Rightarrow> False | Some v \<Rightarrow> canonical_collection L v) \<and> no_children (Children s)
       else if ValueType s = Some ''group'' then Value s = None \<and> canonical_children (Children s)
       else False))"

text \<open>
  A wire child that \<open>parseChildSettings\<close> cannot decode, and a top-level wire element that
  \<open>convertAPISettingsToModel\<close> cannot decode.
\<close>

definition undecodable_child :: "SettingsCatalogPolicySetting \<Rightarrow> bool" where
  "undecodable_child apiChild =
     (case pcs_SettingInstance apiChild of
        None \<Rightarrow> True
      | Some instance \<Rightarrow> si_SimpleSettingValue instance = None \<and> si_ChoiceSettingValue instance = None)"

definition unknown_shape :: "SettingInstance \<Rightarrow> bool" where
  "unknown_shape instance =
     (si_SimpleSettingValue instance = None \<and> si_ChoiceSettingValue instance = None
      \<and> si_SimpleSettingCollectionValue instance = [] \<and> si_GroupSettingValue instance = None)"

text \<open>
  The diagnostic the encoder adds for a top-level setting it cannot parse: an integer that
  \<open>ParseInt\<close> rejects, a collection that \<open>json.Unmarshal\<close> rejects.
\<close>

definition unparsable :: "golib \<Rightarrow> SettingModel \<Rightarrow> Diagnostic option" where
  "unparsable L s =
     (let value = ValueString (Value s)
      in if ValueType s = Some ''integer'' then
           (case ParseInt value of
              Inl err \<Rightarrow>
                Some \<lparr>severity = SeverityError, summary = ''Invalid Integer Value'',
                      detail = msg_not_integer value (NumError_Error L value err)\<rparr>
            | Inr n \<Rightarrow> None)
         else if ValueType s = Some ''collection'' then
           (case json_Unmarshal L value of
              Inl err \<Rightarrow>
                Some \<lparr>severity = SeverityError, summary = ''Invalid Collection Value'',
                      detail = msg_not_json_array value err\<rparr>
            | Inr values \<Rightarrow> None)
         else None)"

section \<open>An instance of the library parameters for examples\<close>

text \<open>
  \<open>plain_lib\<close> agrees with \<open>encoding/json\<close> and \<open>strconv.Quote\<close> on the fragment the
  examples below use: JSON arrays of string literals without escape sequences, made of
  printable ASCII characters other than the five that \<open>json.Marshal\<close> escapes
  (\<open>"\<close>, \<open>\\<close>, \<open><\<close>, \<open>>\<close>, \<open>&\<close>), with JSON white space between the tokens.  Outside
  the fragment \<open>plain_Unmarshal\<close> reports an error.
\<close>

datatype scan_state = Start | Open | InString string | AfterValue | NeedValue | Closed

definition is_ws :: "char \<Rightarrow> bool" where
  "is_ws c = (c = CHR '' '' \<or> c = CHR 0x09 \<or> c = CHR 0x0A \<or> c = CHR 0x0D)"

definition is_plain :: "char \<Rightarrow> bool" where
  "is_plain c =
     (32 \<le> (of_char c :: nat) \<and> (of_char c :: nat) \<le> 126
      \<and> c \<noteq> CHR 0x22 \<and> c \<noteq> CHR 0x5C \<and> c \<noteq> CHR ''<'' \<and> c \<noteq> CHR ''>'' \<and> c \<noteq> CHR ''&'')"

fun scan_array :: "scan_state \<Rightarrow> go_value list \<Rightarrow> string \<Rightarrow> go_value list option" where
  "scan_array st acc [] = (if st = Closed then Some acc else None)"
| "scan_array Start acc (c # cs) =
     (if is_ws c then scan_array Start acc cs
      else if c = CHR ''['' then scan_array Open acc cs else None)"
| "scan_array Open acc (c # cs) =
     (if is_ws c then scan_array Open acc cs
      else if c = CHR '']'' then scan_array Closed acc cs
      else if c = CHR 0x22 then scan_array (InString []) acc cs else None)"
| "scan_array (InString s) acc (c # cs) =
     (if c = CHR 0x22 then scan_array AfterValue (acc @ [VString s]) cs
      else if is_plain c then scan_array (InString (s @ [c])) acc cs else None)"
| "scan_array AfterValue acc (c # cs) =
     (if is_ws c then scan_array AfterValue acc cs
      else if c = CHR '','' then scan_array NeedValue acc cs
      else if c = CHR '']'' then scan_array Closed acc cs else None)"
| "scan_array NeedValue acc (c # cs) =
     (if is_ws c then scan_array NeedValue acc cs
      else if c = CHR 0x22 then scan_array (InString []) acc cs else None)"
| "scan_array Closed acc (c # cs) = (if is_ws c then scan_array Closed acc cs else None)"

definition plain_Unmarshal :: "string \<Rightarrow> string + go_value list" where
  "plain_Unmarshal s =
     (case scan_array Start [] s of None \<Rightarrow> Inl ''text outside the fragment'' | Some vs \<Rightarrow> Inr vs)"

fun join_comma :: "string list \<Rightarrow> string" where
  "join_comma [] = []"
| "join_comma [x] = x"
| "join_comma (x # y # ys) = x @ '','' @ join_comma (y # ys)"

definition plain_Quote :: "string \<Rightarrow> string" where
  "plain_Quote s = [CHR 0x22] @ s @ [CHR 0x22]"

definition plain_Marshal :: "string list \<Rightarrow> string" where
  "plain_Marshal xs = ''['' @ join_comma (map plain_Quote xs) @ '']''"

definition plain_lib :: golib where
  "plain_lib = \<lparr>json_Unmarshal = plain_Unmarshal, json_Marshal = plain_Marshal, strconv_Quote = plain_Quote\<rparr>"

definition no_client :: GraphClient where
  "no_client = \<lparr>roundTrip = (\<lambda>r. Inl (ErrOther ''no service'')),
                json_member = (\<lambda>k v p. Inl ''no decoder'')\<rparr>"

definition w_empty :: world where
  "w_empty = \<lparr>diags = [], logs = [], requests = []\<rparr>"


section \<open>Facts about the library layer\<close>

lemma of_char_digit_char: "d < 10 \<Longrightarrow> (of_char (digit_char d) :: nat) = 48 + d"
  by (simp add: digit_char_def)

lemma parseUint_loop_append:
  "parseUint_loop n (xs @ ys) = (case parseUint_loop n xs of Inl e \<Rightarrow> Inl e | Inr m \<Rightarrow> parseUint_loop m ys)"
  by (induction xs arbitrary: n) (auto simp: Let_def)

lemma parseUint_loop_digit:
  assumes "d < 10" "acc * 10 + d \<le> maxUint64"
  shows "parseUint_loop acc [digit_char d] = Inr (acc * 10 + d)"
proof -
  have "acc \<le> maxUint64 div 10" using assms(2) by simp
  then have "\<not> acc \<ge> maxUint64 div 10 + 1" by simp
  then show ?thesis using assms by (simp add: of_char_digit_char Let_def)
qed

lemma parseUint_loop_show_nat:
  "acc * 10 ^ length (show_nat m) + m \<le> maxUint64 \<Longrightarrow>
   parseUint_loop acc (show_nat m) = Inr (acc * 10 ^ length (show_nat m) + m)"
proof (induction m arbitrary: acc rule: show_nat.induct)
  case (1 n)
  show ?case
  proof (cases "n < 10")
    case True
    then have s: "show_nat n = [digit_char n]" by (simp add: show_nat.simps)
    from "1.prems" have "acc * 10 + n \<le> maxUint64" by (simp add: s)
    with True show ?thesis by (simp add: s parseUint_loop_digit del: parseUint_loop.simps)
  next
    case False
    then have s: "show_nat n = show_nat (n div 10) @ [digit_char (n mod 10)]"
      by (subst show_nat.simps) simp
    define l where "l = length (show_nat (n div 10))"
    define x where "x = acc * 10 ^ l + n div 10"
    have "acc * 10 ^ (Suc l) + n \<le> maxUint64" using "1.prems" by (simp add: s l_def)
    moreover have "acc * 10 ^ (Suc l) + n = x * 10 + n mod 10"
      by (simp add: x_def algebra_simps)
    ultimately have le: "x * 10 + n mod 10 \<le> maxUint64" by simp
    then have "x \<le> maxUint64" by arith
    from "1.IH" [OF False this [unfolded x_def l_def]]
    have ih: "parseUint_loop acc (show_nat (n div 10)) = Inr x" by (simp add: x_def l_def)
    have last: "parseUint_loop x [digit_char (n mod 10)] = Inr (x * 10 + n mod 10)"
      using le by (intro parseUint_loop_digit) simp_all
    have "acc * 10 ^ length (show_nat n) + n = x * 10 + n mod 10"
      by (simp add: s x_def l_def algebra_simps)
    then show ?thesis
      using ih last by (simp add: s parseUint_loop_append del: parseUint_loop.simps)
  qed
qed

lemma show_nat_not_Nil: "show_nat n \<noteq> []"
  by (subst show_nat.simps) simp

lemma hd_show_nat: "\<exists>d < 10. hd (show_nat n) = digit_char d"
proof (induction n rule: show_nat.induct)
  case (1 n)
  show ?case
  proof (cases "n < 10")
    case True
    then show ?thesis by (subst show_nat.simps) auto
  next
    case False
    then have "hd (show_nat n) = hd (show_nat (n div 10))"
      by (subst show_nat.simps) (simp add: show_nat_not_Nil)
    with "1.IH" [OF False] show ?thesis by simp
  qed
qed

lemma hd_show_nat_no_sign: "hd (show_nat n) \<noteq> CHR ''-''" "hd (show_nat n) \<noteq> CHR ''+''"
proof -
  obtain d where d: "d < 10" "hd (show_nat n) = digit_char d" using hd_show_nat by blast
  have "(of_char (hd (show_nat n)) :: nat) = 48 + d" using d by (simp add: of_char_digit_char)
  then show "hd (show_nat n) \<noteq> CHR ''-''" "hd (show_nat n) \<noteq> CHR ''+''" by auto
qed

lemma ParseUint_show_nat: "m \<le> maxUint64 \<Longrightarrow> ParseUint (show_nat m) = Inr m"
  using parseUint_loop_show_nat [of 0 m] by (simp add: ParseUint_def show_nat_not_Nil)

lemma ParseInt_format_int64: "ParseInt (format_int64 w) = Inr w"
proof (cases "sint w < 0")
  case True
  let ?u = "nat (- sint w)"
  have lo: "- (2 ^ 63) \<le> sint w" using sint_ge [of w] by simp
  then have u: "?u \<le> 2 ^ 63" using True by (simp add: nat_le_iff)
  then have "?u \<le> maxUint64" by (simp add: maxUint64_def)
  then have p: "ParseUint (show_nat ?u) = Inr ?u" by (rule ParseUint_show_nat)
  have "word_of_int (- int ?u) = w" using True by simp
  then show ?thesis
    using True u p by (simp add: ParseInt_def format_int64_def Let_def)
next
  case False
  let ?u = "nat (sint w)"
  have hi: "sint w < 2 ^ 63" using sint_lt [of w] by simp
  then have u: "?u < 2 ^ 63" using False by (simp add: nat_less_iff)
  then have "?u \<le> maxUint64" by (simp add: maxUint64_def)
  then have p: "ParseUint (show_nat ?u) = Inr ?u" by (rule ParseUint_show_nat)
  have "word_of_int (int ?u) = w" using False by simp
  then show ?thesis
    using False u p by (simp add: ParseInt_def format_int64_def Let_def show_nat_not_Nil hd_show_nat_no_sign)
qed

lemma canonical_integer_format_int64: "canonical_integer (format_int64 w)"
  by (simp add: canonical_integer_def ParseInt_format_int64)

lemmas ParseInt_eval = ParseInt_def ParseUint_def maxUint64_def Let_def


section \<open>The branches of the encoder\<close>

lemma ValueString_simps [simp]: "ValueString None = []" "ValueString (Some s) = s"
  by (simp_all add: ValueString_def)

lemma ValueString_true: "(ValueString v = ''true'') = (v = Some ''true'')"
  by (cases v) auto

lemma convertSettingInstance_string:
  "ValueType s = Some ''string'' \<Longrightarrow>
   convertSettingInstance L s w =
     (Some (SettingInstance odata_SimpleInstance (ValueString (DefinitionID s)) None
              (Some (SimpleSettingValue odata_StringValue (VString (ValueString (Value s))))) None [] None []), w)"
  by (simp add: convertSettingInstance_def Let_def)

lemma convertSettingInstance_integer:
  "ValueType s = Some ''integer'' \<Longrightarrow>
   convertSettingInstance L s w =
     (case ParseInt (ValueString (Value s)) of
        Inl err \<Rightarrow> (None, addError ''Invalid Integer Value''
                      (msg_not_integer (ValueString (Value s)) (NumError_Error L (ValueString (Value s)) err)) w)
      | Inr intVal \<Rightarrow>
          (Some (SettingInstance odata_SimpleInstance (ValueString (DefinitionID s)) None
                   (Some (SimpleSettingValue odata_IntegerValue (VInt64 intVal))) None [] None []), w))"
  by (simp add: convertSettingInstance_def Let_def)

lemma convertSettingInstance_boolean:
  "ValueType s = Some ''boolean'' \<Longrightarrow>
   convertSettingInstance L s w =
     (Some (SettingInstance odata_SimpleInstance (ValueString (DefinitionID s)) None
              (Some (SimpleSettingValue odata_BooleanValue (VBool (Value s = Some ''true'')))) None [] None []), w)"
  by (simp add: convertSettingInstance_def Let_def ValueString_true)

lemma convertSettingInstance_choice:
  "ValueType s = Some ''choice'' \<Longrightarrow>
   convertSettingInstance L s w =
     (case Children s of
        Some (c # cs) \<Rightarrow>
          if HasError (diags w) then (None, w)
          else (case convertChildren L (c # cs) [] w of
                  (children, w') \<Rightarrow>
                    (Some (SettingInstance odata_ChoiceInstance (ValueString (DefinitionID s)) None None
                             (Some (ChoiceSettingValue odata_ChoiceValue (ValueString (Value s)) children)) [] None []), w'))
      | _ \<Rightarrow>
          (Some (SettingInstance odata_ChoiceInstance (ValueString (DefinitionID s)) None None
                   (Some (ChoiceSettingValue odata_ChoiceValue (ValueString (Value s)) [])) [] None []), w))"
  by (simp add: convertSettingInstance_def Let_def)

lemma convertSettingInstance_collection:
  "ValueType s = Some ''collection'' \<Longrightarrow>
   convertSettingInstance L s w =
     (case json_Unmarshal L (ValueString (Value s)) of
        Inl err \<Rightarrow> (None, addError ''Invalid Collection Value'' (msg_not_json_array (ValueString (Value s)) err) w)
      | Inr values \<Rightarrow>
          (Some (SettingInstance odata_CollectionInstance (ValueString (DefinitionID s)) None None None
                   (map (\<lambda>v. SimpleSettingValue odata_StringValue (VString (sprintf_v v))) values)
                   None []), w))"
  by (simp add: convertSettingInstance_def Let_def)

lemma convertSettingInstance_group:
  "ValueType s = Some ''group'' \<Longrightarrow>
   convertSettingInstance L s w =
     (case Children s of
        Some (c # cs) \<Rightarrow>
          if HasError (diags w) then (None, w)
          else (case convertChildren L (c # cs) [] w of
                  (children, w') \<Rightarrow>
                    (Some (SettingInstance odata_GroupInstance (ValueString (DefinitionID s)) None None None []
                             (Some (GroupSettingValue odata_GroupValue children)) []), w'))
      | _ \<Rightarrow>
          (Some (SettingInstance odata_GroupInstance (ValueString (DefinitionID s)) None None None []
                   (Some (GroupSettingValue odata_GroupValue [])) []), w))"
  by (simp add: convertSettingInstance_def Let_def)

lemma convertChildSetting_string:
  "ValueType c = Some ''string'' \<Longrightarrow>
   convertChildSetting L c w =
     (Some (SettingsCatalogPolicySetting odata_Setting []
        (Some (SettingInstance odata_SimpleInstance (ValueString (DefinitionID c)) None
              (Some (SimpleSettingValue odata_StringValue (VString (ValueString (Value c))))) None [] None []))), w)"
  by (simp add: convertChildSetting_def Let_def)

lemma convertChildSetting_integer:
  "ValueType c = Some ''integer'' \<Longrightarrow>
   convertChildSetting L c w =
     (case ParseInt (ValueString (Value c)) of
        Inl err \<Rightarrow> (None, addError ''Invalid Integer Value''
                      (msg_not_integer (ValueString (Value c)) (NumError_Error L (ValueString (Value c)) err)) w)
      | Inr intVal \<Rightarrow>
          (Some (SettingsCatalogPolicySetting odata_Setting []
             (Some (SettingInstance odata_SimpleInstance (ValueString (DefinitionID c)) None
                   (Some (SimpleSettingValue odata_IntegerValue (VInt64 intVal))) None [] None []))), w))"
  by (simp add: convertChildSetting_def Let_def)

lemma convertChildSetting_boolean:
  "ValueType c = Some ''boolean'' \<Longrightarrow>
   convertChildSetting L c w =
     (Some (SettingsCatalogPolicySetting odata_Setting []
        (Some (SettingInstance odata_SimpleInstance (ValueString (DefinitionID c)) None
              (Some (SimpleSettingValue odata_BooleanValue (VBool (Value c = Some ''true'')))) None [] None []))), w)"
  by (simp add: convertChildSetting_def Let_def ValueString_true)

lemma convertChildSetting_choice:
  "ValueType c = Some ''choice'' \<Longrightarrow>
   convertChildSetting L c w =
     (Some (SettingsCatalogPolicySetting odata_Setting []
        (Some (SettingInstance odata_ChoiceInstance (ValueString (DefinitionID c)) None None
              (Some (ChoiceSettingValue odata_ChoiceValue (ValueString (Value c)) [])) [] None []))), w)"
  by (simp add: convertChildSetting_def Let_def)

lemma parseSimple_string [simp]:
  "parseSimpleSettingValue (Some (SimpleSettingValue odata_StringValue v)) = (Some ''string'', Some (sprintf_v v))"
  by (simp add: parseSimpleSettingValue_def)

lemma parseSimple_integer [simp]:
  "parseSimpleSettingValue (Some (SimpleSettingValue odata_IntegerValue v)) = (Some ''integer'', Some (sprintf_v v))"
  by (simp add: parseSimpleSettingValue_def)

lemma parseSimple_boolean [simp]:
  "parseSimpleSettingValue (Some (SimpleSettingValue odata_BooleanValue (VBool b))) =
     (Some ''boolean'', Some (if b then ''true'' else ''false''))"
  by (simp add: parseSimpleSettingValue_def)

lemma child_roundtrip:
  fixes c :: ChildSettingModel
  assumes "canonical_child c"
  shows "\<exists>x. convertChildSetting L c w = (Some x, w) \<and>
             (\<forall>rest acc. parseChildSettings_loop (x # rest) acc = parseChildSettings_loop rest (acc @ [c]))"
proof -
  obtain d where d: "DefinitionID c = Some d"
    using assms by (auto simp: canonical_child_def)
  obtain v where v: "Value c = Some v"
    using assms by (auto simp: canonical_child_def split: option.splits)
  from assms d v consider
      (str) "ValueType c = Some ''string''"
    | (int) "ValueType c = Some ''integer''" "canonical_integer v"
    | (bool) "ValueType c = Some ''boolean''" "v = ''true'' \<or> v = ''false''"
    | (choice) "ValueType c = Some ''choice''"
    by (auto simp: canonical_child_def)
  then show ?thesis
  proof cases
    case str
    have "c = \<lparr>DefinitionID = Some d, ValueType = Some ''string'', Value = Some v\<rparr>"
      using d v str by (cases c) simp
    then show ?thesis
      by (simp add: convertChildSetting_string)
  next
    case int
    then obtain n where n: "ParseInt v = Inr n" "format_int64 n = v"
      by (auto simp: canonical_integer_def split: sum.splits)
    have "c = \<lparr>DefinitionID = Some d, ValueType = Some ''integer'', Value = Some v\<rparr>"
      using d v int by (cases c) simp
    then show ?thesis
      using n by (simp add: convertChildSetting_integer)
  next
    case bool
    have "c = \<lparr>DefinitionID = Some d, ValueType = Some ''boolean'', Value = Some v\<rparr>"
      using d v bool by (cases c) simp
    then show ?thesis
      using bool(2) by (auto simp add: convertChildSetting_boolean)
  next
    case choice
    have "c = \<lparr>DefinitionID = Some d, ValueType = Some ''choice'', Value = Some v\<rparr>"
      using d v choice by (cases c) simp
    then show ?thesis
      by (simp add: convertChildSetting_choice)
  qed
qed

lemma children_roundtrip:
  fixes cs :: "ChildSettingModel list"
  assumes "list_all canonical_child cs"
  shows "\<exists>xs. convertChildren L cs acc w = (acc @ xs, w) \<and> length xs = length cs \<and>
              (\<forall>a. parseChildSettings_loop xs a = a @ cs)"
  using assms
proof (induction cs arbitrary: acc)
  case Nil
  then show ?case by simp
next
  case (Cons c cs)
  from Cons.prems have c: "canonical_child c" and cs: "list_all canonical_child cs" by simp_all
  from child_roundtrip [OF c, of L w] obtain x where
    x: "convertChildSetting L c w = (Some x, w)"
       "\<And>rest a. parseChildSettings_loop (x # rest) a = parseChildSettings_loop rest (a @ [c])"
    by blast
  from Cons.IH [OF cs, of "acc @ [x]"] obtain xs where
    xs: "convertChildren L cs (acc @ [x]) w = ((acc @ [x]) @ xs, w)" "length xs = length cs"
        "\<And>a. parseChildSettings_loop xs a = a @ cs"
    by blast
  have "convertChildren L (c # cs) acc w = (acc @ (x # xs), w)"
    using x(1) xs(1) by simp
  moreover have "length (x # xs) = length (c # cs)" using xs(2) by simp
  moreover have "\<forall>a. parseChildSettings_loop (x # xs) a = a @ (c # cs)"
    using x(2) xs(3) by simp
  ultimately show ?case by blast
qed


section \<open>Boolean coercion\<close>

text \<open>
  Claim C3.  Encoding a setting of value type \<open>boolean\<close> (top level or child) puts wire
  \<open>true\<close> exactly when the declared value is the string \<open>true\<close>, and wire \<open>false\<close> for
  every other value, the null value included; it never fails: the instance is not nil and
  diagnostics, log and requests are as before.  Decoding a wire boolean gives the string
  \<open>true\<close> for \<open>true\<close> and \<open>false\<close> for \<open>false\<close>.
\<close>

theorem boolean_coercion:
  "convertSettingInstance L \<lparr>DefinitionID = d, ValueType = Some ''boolean'', Value = v, Children = c\<rparr> w =
     (Some (SettingInstance odata_SimpleInstance (ValueString d) None
              (Some (SimpleSettingValue odata_BooleanValue (VBool (v = Some ''true'')))) None [] None []), w)
   \<and> convertChildSetting L \<lparr>DefinitionID = d, ValueType = Some ''boolean'', Value = v\<rparr> w =
     (Some (SettingsCatalogPolicySetting odata_Setting []
        (Some (SettingInstance odata_SimpleInstance (ValueString d) None
              (Some (SimpleSettingValue odata_BooleanValue (VBool (v = Some ''true'')))) None [] None []))), w)
   \<and> parseSimpleSettingValue (Some (SimpleSettingValue odata_BooleanValue (VBool b))) =
     (Some ''boolean'', Some (if b then ''true'' else ''false''))"
  by (simp add: convertSettingInstance_boolean convertChildSetting_boolean)

text \<open>
  The value \<open>yes\<close> is encoded as wire \<open>false\<close>, without a diagnostic.
\<close>

theorem boolean_coercion_witness:
  "convertSettingInstance plain_lib
     \<lparr>DefinitionID = Some ''allow_telemetry'', ValueType = Some ''boolean'', Value = Some ''yes'', Children = None\<rparr>
     w_empty =
     (Some (SettingInstance odata_SimpleInstance ''allow_telemetry'' None
              (Some (SimpleSettingValue odata_BooleanValue (VBool False))) None [] None []), w_empty)
   \<and> parseSimpleSettingValue (Some (SimpleSettingValue odata_BooleanValue (VBool False))) =
     (Some ''boolean'', Some ''false'')"
  using boolean_coercion [of plain_lib "Some ''allow_telemetry''" "Some ''yes''" None w_empty False]
  by simp

section \<open>Round trip of a declared setting\<close>

text \<open>
  Claim C1, as the code has it.  A canonical declared setting of any of the six value types,
  encoded by \<open>convertSettingInstance\<close> while the diagnostics hold no error, gives a wire
  instance without adding a diagnostic, a log entry or a request, and
  \<open>convertAPISettingsToModel\<close> decodes that wire node to the same declared setting:
  definition id, value type and value are unchanged, and so are the children, except that
  an empty list of children comes back as the null list.
\<close>

theorem canonical_setting_roundtrip:
  assumes "canonical_setting L s" and "\<not> HasError (diags w)"
  shows "\<exists>instance. convertSettingInstance L s w = (Some instance, w) \<and>
           convertAPISettingsToModel L [SettingsCatalogPolicySetting odata_Setting [] (Some instance)] w
             = (Some [s\<lparr>Children := decoded_children (Children s)\<rparr>], w)"
proof -
  obtain d where d: "DefinitionID s = Some d"
    using assms(1) by (auto simp: canonical_setting_def)
  from assms(1) consider
      (str) v where "ValueType s = Some ''string''" "Value s = Some v" "no_children (Children s)"
    | (int) v where "ValueType s = Some ''integer''" "Value s = Some v" "canonical_integer v"
                    "no_children (Children s)"
    | (bool) v where "ValueType s = Some ''boolean''" "Value s = Some v" "v = ''true'' \<or> v = ''false''"
                     "no_children (Children s)"
    | (choice) v where "ValueType s = Some ''choice''" "Value s = Some v" "canonical_children (Children s)"
    | (coll) v where "ValueType s = Some ''collection''" "Value s = Some v" "canonical_collection L v"
                     "no_children (Children s)"
    | (grp) "ValueType s = Some ''group''" "Value s = None" "canonical_children (Children s)"
    by (auto simp: canonical_setting_def split: if_splits option.splits)
  then show ?thesis
  proof cases
    case str
    have "s\<lparr>Children := decoded_children (Children s)\<rparr> =
            \<lparr>DefinitionID = Some d, ValueType = Some ''string'', Value = Some v, Children = None\<rparr>"
      using d str by (cases s) (auto simp: no_children_def decoded_children_def)
    then show ?thesis
      using d str by (simp add: convertSettingInstance_string convertAPISettingsToModel_def)
  next
    case int
    then obtain n where n: "ParseInt v = Inr n" "format_int64 n = v"
      by (auto simp: canonical_integer_def split: sum.splits)
    have "s\<lparr>Children := decoded_children (Children s)\<rparr> =
            \<lparr>DefinitionID = Some d, ValueType = Some ''integer'', Value = Some v, Children = None\<rparr>"
      using d int by (cases s) (auto simp: no_children_def decoded_children_def)
    then show ?thesis
      using d int n by (simp add: convertSettingInstance_integer convertAPISettingsToModel_def)
  next
    case bool
    have "s\<lparr>Children := decoded_children (Children s)\<rparr> =
            \<lparr>DefinitionID = Some d, ValueType = Some ''boolean'', Value = Some v, Children = None\<rparr>"
      using d bool by (cases s) (auto simp: no_children_def decoded_children_def)
    then show ?thesis
      using d bool by (auto simp add: convertSettingInstance_boolean convertAPISettingsToModel_def)
  next
    case coll
    then obtain vs where vs: "json_Unmarshal L v = Inr vs" "vs \<noteq> []" "json_Marshal L (map sprintf_v vs) = v"
      by (auto simp: canonical_collection_def split: sum.splits)
    have "s\<lparr>Children := decoded_children (Children s)\<rparr> =
            \<lparr>DefinitionID = Some d, ValueType = Some ''collection'', Value = Some v, Children = None\<rparr>"
      using d coll by (cases s) (auto simp: no_children_def decoded_children_def)
    then show ?thesis
      using d coll vs by (simp add: convertSettingInstance_collection convertAPISettingsToModel_def comp_def)
  next
    case choice
    show ?thesis
    proof (cases "decoded_children (Children s)")
      case None
      then have nc: "Children s = None \<or> Children s = Some []"
        by (auto simp: decoded_children_def split: if_splits)
      have "s\<lparr>Children := decoded_children (Children s)\<rparr> =
            \<lparr>DefinitionID = Some d, ValueType = Some ''choice'', Value = Some v, Children = None\<rparr>"
        using d choice None by (cases s) auto
      then show ?thesis
        using d choice nc by (auto simp add: convertSettingInstance_choice convertAPISettingsToModel_def)
    next
      case (Some cs)
      then have cs: "Children s = Some cs" and ne: "cs \<noteq> []"
        by (auto simp: decoded_children_def split: if_splits)
      with choice(3) have can: "list_all canonical_child cs"
        by (simp add: canonical_children_def)
      from children_roundtrip [OF can, of L "[]" w] obtain xs where
        xs: "convertChildren L cs [] w = (xs, w)" "length xs = length cs"
            "\<And>a. parseChildSettings_loop xs a = a @ cs"
        by auto
      from ne obtain c cs' where cc: "cs = c # cs'" by (cases cs) auto
      have s: "s\<lparr>Children := decoded_children (Children s)\<rparr> =
            \<lparr>DefinitionID = Some d, ValueType = Some ''choice'', Value = Some v, Children = Some cs\<rparr>"
        using d choice Some by (cases s) auto
      have enc: "convertSettingInstance L s w =
          (Some (SettingInstance odata_ChoiceInstance d None None
                   (Some (ChoiceSettingValue odata_ChoiceValue v xs)) [] None []), w)"
        using assms(2) xs(1) d choice cs cc by (simp add: convertSettingInstance_choice)
      have xne: "xs \<noteq> []" using xs(2) ne by auto
      have "convertAPISettingsToModel L [SettingsCatalogPolicySetting odata_Setting []
               (Some (SettingInstance odata_ChoiceInstance d None None
                   (Some (ChoiceSettingValue odata_ChoiceValue v xs)) [] None []))] w
            = (Some [s\<lparr>Children := decoded_children (Children s)\<rparr>], w)"
        using xne ne xs(3) [of "[]"] by (simp add: convertAPISettingsToModel_def parseChildSettings_def s)
      with enc show ?thesis by blast
    qed
  next
    case grp
    show ?thesis
    proof (cases "decoded_children (Children s)")
      case None
      then have nc: "Children s = None \<or> Children s = Some []"
        by (auto simp: decoded_children_def split: if_splits)
      have "s\<lparr>Children := decoded_children (Children s)\<rparr> =
            \<lparr>DefinitionID = Some d, ValueType = Some ''group'', Value = None, Children = None\<rparr>"
        using d grp None by (cases s) auto
      then show ?thesis
        using d grp nc by (auto simp add: convertSettingInstance_group convertAPISettingsToModel_def)
    next
      case (Some cs)
      then have cs: "Children s = Some cs" and ne: "cs \<noteq> []"
        by (auto simp: decoded_children_def split: if_splits)
      with grp(3) have can: "list_all canonical_child cs"
        by (simp add: canonical_children_def)
      from children_roundtrip [OF can, of L "[]" w] obtain xs where
        xs: "convertChildren L cs [] w = (xs, w)" "length xs = length cs"
            "\<And>a. parseChildSettings_loop xs a = a @ cs"
        by auto
      from ne obtain c cs' where cc: "cs = c # cs'" by (cases cs) auto
      have s: "s\<lparr>Children := decoded_children (Children s)\<rparr> =
            \<lparr>DefinitionID = Some d, ValueType = Some ''group'', Value = None, Children = Some cs\<rparr>"
        using d grp Some by (cases s) auto
      have enc: "convertSettingInstance L s w =
          (Some (SettingInstance odata_GroupInstance d None None None []
                   (Some (GroupSettingValue odata_GroupValue xs)) []), w)"
        using assms(2) xs(1) d grp cs cc by (simp add: convertSettingInstance_group)
      have xne: "xs \<noteq> []" using xs(2) ne by auto
      have "convertAPISettingsToModel L [SettingsCatalogPolicySetting odata_Setting []
               (Some (SettingInstance odata_GroupInstance d None None None []
                   (Some (GroupSettingValue odata_GroupValue xs)) []))] w
            = (Some [s\<lparr>Children := decoded_children (Children s)\<rparr>], w)"
        using xne ne xs(3) [of "[]"] by (simp add: convertAPISettingsToModel_def parseChildSettings_def s)
      with enc show ?thesis by blast
    qed
  qed
qed

theorem canonical_setting_roundtrip_witness:
  "canonical_setting plain_lib
     \<lparr>DefinitionID = Some ''policy_choice'', ValueType = Some ''choice'', Value = Some ''policy_choice_1'',
      Children = Some [\<lparr>DefinitionID = Some ''child_a'', ValueType = Some ''string'', Value = Some ''x''\<rparr>,
                       \<lparr>DefinitionID = Some ''child_b'', ValueType = Some ''boolean'', Value = Some ''true''\<rparr>,
                       \<lparr>DefinitionID = Some ''child_c'', ValueType = Some ''integer'', Value = Some ''-42''\<rparr>]\<rparr>
   \<and> \<not> HasError (diags w_empty)
   \<and> (\<exists>instance.
         convertSettingInstance plain_lib
           \<lparr>DefinitionID = Some ''policy_choice'', ValueType = Some ''choice'', Value = Some ''policy_choice_1'',
            Children = Some [\<lparr>DefinitionID = Some ''child_a'', ValueType = Some ''string'', Value = Some ''x''\<rparr>,
                       \<lparr>DefinitionID = Some ''child_b'', ValueType = Some ''boolean'', Value = Some ''true''\<rparr>,
                       \<lparr>DefinitionID = Some ''child_c'', ValueType = Some ''integer'', Value = Some ''-42''\<rparr>]\<rparr>
           w_empty = (Some instance, w_empty)
         \<and> convertAPISettingsToModel plain_lib
             [SettingsCatalogPolicySetting odata_Setting [] (Some instance)] w_empty =
           (Some [\<lparr>DefinitionID = Some ''policy_choice'', ValueType = Some ''choice'', Value = Some ''policy_choice_1'',
            Children = Some [\<lparr>DefinitionID = Some ''child_a'', ValueType = Some ''string'', Value = Some ''x''\<rparr>,
                       \<lparr>DefinitionID = Some ''child_b'', ValueType = Some ''boolean'', Value = Some ''true''\<rparr>,
                       \<lparr>DefinitionID = Some ''child_c'', ValueType = Some ''integer'', Value = Some ''-42''\<rparr>]\<rparr>], w_empty))"
proof -
  let ?s = "\<lparr>DefinitionID = Some ''policy_choice'', ValueType = Some ''choice'', Value = Some ''policy_choice_1'',
      Children = Some [\<lparr>DefinitionID = Some ''child_a'', ValueType = Some ''string'', Value = Some ''x''\<rparr>,
                       \<lparr>DefinitionID = Some ''child_b'', ValueType = Some ''boolean'', Value = Some ''true''\<rparr>,
                       \<lparr>DefinitionID = Some ''child_c'', ValueType = Some ''integer'', Value = Some ''-42''\<rparr>]\<rparr>"
  have p: "ParseInt ''-42'' = Inr (-42)" by (simp add: ParseInt_eval)
  have f: "format_int64 (-42) = ''-42''" by code_simp
  have h1: "canonical_setting plain_lib ?s"
    by (simp add: canonical_setting_def canonical_children_def canonical_child_def canonical_integer_def p f)
  have h2: "\<not> HasError (diags w_empty)" by (simp add: w_empty_def HasError_def)
  from canonical_setting_roundtrip [OF h1 h2] h1 h2 show ?thesis
    by (simp add: decoded_children_def)
qed


text \<open>
  C1 as stated fails on values the encoder accepts but the decoder does not print back:
  the integer text \<open>007\<close> is parsed to 7 and decoded as \<open>7\<close>; the collection text
  \<open>["a", "b"]\<close>, with a blank after the comma, is decoded as \<open>["a","b"]\<close>.
\<close>

theorem noncanonical_roundtrip_counterexample:
  "ParseInt ''007'' = Inr 7
   \<and> convertSettingInstance plain_lib
       \<lparr>DefinitionID = Some ''d'', ValueType = Some ''integer'', Value = Some ''007'', Children = None\<rparr> w_empty =
     (Some (SettingInstance odata_SimpleInstance ''d'' None
             (Some (SimpleSettingValue odata_IntegerValue (VInt64 7))) None [] None []), w_empty)
   \<and> convertAPISettingsToModel plain_lib
       [SettingsCatalogPolicySetting odata_Setting []
          (Some (SettingInstance odata_SimpleInstance ''d'' None
             (Some (SimpleSettingValue odata_IntegerValue (VInt64 7))) None [] None []))] w_empty =
     (Some [\<lparr>DefinitionID = Some ''d'', ValueType = Some ''integer'', Value = Some ''7'', Children = None\<rparr>], w_empty)
   \<and> \<lparr>DefinitionID = Some ''d'', ValueType = Some ''integer'', Value = Some ''7'', Children = None\<rparr>
       \<noteq> \<lparr>DefinitionID = Some ''d'', ValueType = Some ''integer'', Value = Some ''007'', Children = None\<rparr>
   \<and> convertSettingInstance plain_lib
       \<lparr>DefinitionID = Some ''tags'', ValueType = Some ''collection'',
        Value = Some (''['' @ [CHR 0x22] @ ''a'' @ [CHR 0x22] @ '', '' @ [CHR 0x22] @ ''b'' @ [CHR 0x22] @ '']''),
        Children = None\<rparr> w_empty =
     (Some (SettingInstance odata_CollectionInstance ''tags'' None None None
             [SimpleSettingValue odata_StringValue (VString ''a''),
              SimpleSettingValue odata_StringValue (VString ''b'')] None []), w_empty)
   \<and> convertAPISettingsToModel plain_lib
       [SettingsCatalogPolicySetting odata_Setting []
          (Some (SettingInstance odata_CollectionInstance ''tags'' None None None
             [SimpleSettingValue odata_StringValue (VString ''a''),
              SimpleSettingValue odata_StringValue (VString ''b'')] None []))] w_empty =
     (Some [\<lparr>DefinitionID = Some ''tags'', ValueType = Some ''collection'',
              Value = Some (''['' @ [CHR 0x22] @ ''a'' @ [CHR 0x22] @ '','' @ [CHR 0x22] @ ''b'' @ [CHR 0x22] @ '']''),
              Children = None\<rparr>], w_empty)"
proof -
  have p: "ParseInt ''007'' = Inr 7" by (simp add: ParseInt_eval)
  have f: "format_int64 7 = ''7''" by code_simp
  have u: "json_Unmarshal plain_lib (''['' @ [CHR 0x22] @ ''a'' @ [CHR 0x22] @ '', '' @ [CHR 0x22] @ ''b'' @ [CHR 0x22] @ '']'')
             = Inr [VString ''a'', VString ''b'']"
    by (simp add: plain_lib_def plain_Unmarshal_def is_ws_def is_plain_def)
  have m: "json_Marshal plain_lib [''a'', ''b'']
             = ''['' @ [CHR 0x22] @ ''a'' @ [CHR 0x22] @ '','' @ [CHR 0x22] @ ''b'' @ [CHR 0x22] @ '']''"
    by (simp add: plain_lib_def plain_Marshal_def plain_Quote_def)
  have i: "convertSettingInstance plain_lib
       \<lparr>DefinitionID = Some ''d'', ValueType = Some ''integer'', Value = Some ''007'', Children = None\<rparr> w_empty =
     (Some (SettingInstance odata_SimpleInstance ''d'' None
             (Some (SimpleSettingValue odata_IntegerValue (VInt64 7))) None [] None []), w_empty)"
    using p by (simp add: convertSettingInstance_integer)
  have i': "convertAPISettingsToModel plain_lib
       [SettingsCatalogPolicySetting odata_Setting []
          (Some (SettingInstance odata_SimpleInstance ''d'' None
             (Some (SimpleSettingValue odata_IntegerValue (VInt64 7))) None [] None []))] w_empty =
     (Some [\<lparr>DefinitionID = Some ''d'', ValueType = Some ''integer'', Value = Some ''7'', Children = None\<rparr>], w_empty)"
    using f by (simp add: convertAPISettingsToModel_def)
  have c: "convertSettingInstance plain_lib
       \<lparr>DefinitionID = Some ''tags'', ValueType = Some ''collection'',
        Value = Some (''['' @ [CHR 0x22] @ ''a'' @ [CHR 0x22] @ '', '' @ [CHR 0x22] @ ''b'' @ [CHR 0x22] @ '']''),
        Children = None\<rparr> w_empty =
     (Some (SettingInstance odata_CollectionInstance ''tags'' None None None
             [SimpleSettingValue odata_StringValue (VString ''a''),
              SimpleSettingValue odata_StringValue (VString ''b'')] None []), w_empty)"
    using u by (simp add: convertSettingInstance_collection del: append.simps)
  have c': "convertAPISettingsToModel plain_lib
       [SettingsCatalogPolicySetting odata_Setting []
          (Some (SettingInstance odata_CollectionInstance ''tags'' None None None
             [SimpleSettingValue odata_StringValue (VString ''a''),
              SimpleSettingValue odata_StringValue (VString ''b'')] None []))] w_empty =
     (Some [\<lparr>DefinitionID = Some ''tags'', ValueType = Some ''collection'',
              Value = Some (''['' @ [CHR 0x22] @ ''a'' @ [CHR 0x22] @ '','' @ [CHR 0x22] @ ''b'' @ [CHR 0x22] @ '']''),
              Children = None\<rparr>], w_empty)"
    using m by (simp add: convertAPISettingsToModel_def del: append.simps)
  show ?thesis using p i i' c c' by simp
qed

section \<open>Decoding children\<close>

lemma parseChildSettings_loop_append:
  "parseChildSettings_loop (xs @ ys) acc = parseChildSettings_loop ys (parseChildSettings_loop xs acc)"
  by (induction xs arbitrary: acc) (auto split: option.splits prod.splits)

lemma parseChildSettings_loop_undecodable:
  "undecodable_child c \<Longrightarrow> parseChildSettings_loop (c # rest) acc = parseChildSettings_loop rest acc"
  by (auto simp: undecodable_child_def split: option.splits)

lemma parseChildSettings_loop_drop:
  "undecodable_child c \<Longrightarrow>
   parseChildSettings_loop (xs @ c # ys) acc = parseChildSettings_loop (xs @ ys) acc"
  by (simp add: parseChildSettings_loop_append parseChildSettings_loop_undecodable
           del: parseChildSettings_loop.simps)

lemma parseChildSettings_world: "snd (parseChildSettings cs w) = w"
  by (simp add: parseChildSettings_def Let_def)

lemma parseChildSettings_Nil: "parseChildSettings [] w = (None, w)"
  by (simp add: parseChildSettings_def)

text \<open>
  Claim C2, as the code has it.  While the children of a choice or group wire node are
  decoded, a child whose instance is nil or carries neither a simple value nor a choice
  value (a nested group, a collection, any other shape) is left out of the declared
  children; nothing is emitted for it (diagnostics, log and requests are as before), and the
  other children are decoded as if it were not there.
\<close>

theorem undecodable_child_dropped_silently:
  assumes "undecodable_child c"
  shows "parseChildSettings (xs @ c # ys) w = parseChildSettings (xs @ ys) w
       \<and> snd (parseChildSettings (xs @ c # ys) w) = w
       \<and> convertAPISettingsToModel_loop L
           (SettingsCatalogPolicySetting t i
              (Some (SettingInstance it d tr None (Some (ChoiceSettingValue ct v (xs @ c # ys))) coll g gc)) # rest)
           acc w =
         convertAPISettingsToModel_loop L
           (SettingsCatalogPolicySetting t i
              (Some (SettingInstance it d tr None (Some (ChoiceSettingValue ct v (xs @ ys))) coll g gc)) # rest)
           acc w
       \<and> convertAPISettingsToModel_loop L
           (SettingsCatalogPolicySetting t i
              (Some (SettingInstance it d tr None None [] (Some (GroupSettingValue gt (xs @ c # ys))) gc)) # rest)
           acc w =
         convertAPISettingsToModel_loop L
           (SettingsCatalogPolicySetting t i
              (Some (SettingInstance it d tr None None [] (Some (GroupSettingValue gt (xs @ ys))) gc)) # rest)
           acc w"
proof -
  have drop: "parseChildSettings (xs @ c # ys) w = parseChildSettings (xs @ ys) w"
    using assms by (simp add: parseChildSettings_def parseChildSettings_loop_drop)
  have sel: "(if 0 < length (xs @ c # ys) then parseChildSettings (xs @ c # ys) w else (None, w))
           = (if 0 < length (xs @ ys) then parseChildSettings (xs @ ys) w else (None, w))"
    using drop by (cases "xs @ ys") (simp_all add: parseChildSettings_Nil)
  show ?thesis
    using drop sel by (simp add: parseChildSettings_world parseChildSettings_Nil Let_def)
qed

text \<open>
  A choice child followed by a nested group child: only the choice child is decoded.
\<close>

theorem undecodable_child_dropped_silently_witness:
  "undecodable_child
     (SettingsCatalogPolicySetting odata_Setting []
        (Some (SettingInstance odata_GroupInstance ''nested'' None None None []
                 (Some (GroupSettingValue odata_GroupValue [])) [])))
   \<and> parseChildSettings
       [SettingsCatalogPolicySetting odata_Setting []
          (Some (SettingInstance odata_ChoiceInstance ''kid'' None None
                   (Some (ChoiceSettingValue odata_ChoiceValue ''kid_1'' [])) [] None [])),
        SettingsCatalogPolicySetting odata_Setting []
          (Some (SettingInstance odata_GroupInstance ''nested'' None None None []
                   (Some (GroupSettingValue odata_GroupValue [])) []))] w_empty
     = (Some [\<lparr>DefinitionID = Some ''kid'', ValueType = Some ''choice'', Value = Some ''kid_1''\<rparr>], w_empty)"
proof -
  let ?c = "SettingsCatalogPolicySetting odata_Setting []
        (Some (SettingInstance odata_GroupInstance ''nested'' None None None []
                 (Some (GroupSettingValue odata_GroupValue [])) []))"
  let ?x = "SettingsCatalogPolicySetting odata_Setting []
          (Some (SettingInstance odata_ChoiceInstance ''kid'' None None
                   (Some (ChoiceSettingValue odata_ChoiceValue ''kid_1'' [])) [] None []))"
  have h: "undecodable_child ?c" by (simp add: undecodable_child_def)
  have "parseChildSettings ([?x] @ ?c # []) w_empty = parseChildSettings ([?x] @ []) w_empty"
    using undecodable_child_dropped_silently [OF h, of "[?x]" "[]" w_empty] by (rule conjunct1)
  moreover have "parseChildSettings [?x] w_empty =
      (Some [\<lparr>DefinitionID = Some ''kid'', ValueType = Some ''choice'', Value = Some ''kid_1''\<rparr>], w_empty)"
    by (simp add: parseChildSettings_def)
  ultimately show ?thesis using h by simp
qed

text \<open>
  C2 as stated asks for a diagnostic for the dropped child.  Decoding a choice node whose
  only child is a nested group, from a state with no diagnostics and an empty log, ends
  with no diagnostics and an empty log: the child is dropped without a trace.
\<close>

theorem nested_child_no_diagnostic_counterexample:
  "convertAPISettingsToModel plain_lib
     [SettingsCatalogPolicySetting odata_Setting []
        (Some (SettingInstance odata_ChoiceInstance ''parent'' None None
           (Some (ChoiceSettingValue odata_ChoiceValue ''parent_1''
              [SettingsCatalogPolicySetting odata_Setting []
                 (Some (SettingInstance odata_GroupInstance ''nested'' None None None []
                          (Some (GroupSettingValue odata_GroupValue [])) []))]))
           [] None []))]
     \<lparr>diags = [], logs = [], requests = []\<rparr>
   = (Some [\<lparr>DefinitionID = Some ''parent'', ValueType = Some ''choice'', Value = Some ''parent_1'',
             Children = None\<rparr>],
      \<lparr>diags = [], logs = [], requests = []\<rparr>)"
  by (simp add: convertAPISettingsToModel_def parseChildSettings_def)

lemma decode_loop_append:
  "convertAPISettingsToModel_loop L (xs @ ys) acc w =
     (case convertAPISettingsToModel_loop L xs acc w of
        (acc', w') \<Rightarrow> convertAPISettingsToModel_loop L ys acc' w')"
proof (induction xs arbitrary: acc w)
  case Nil
  then show ?case by simp
next
  case (Cons x xs)
  show ?case
    by (simp add: Cons.IH Let_def parseChildSettings_def split: option.splits prod.splits)
qed

section \<open>Decoding the top-level list\<close>

lemma decode_loop_Cons:
  "convertAPISettingsToModel_loop L (x # xs) acc w =
     (case convertAPISettingsToModel_loop L [x] acc w of
        (acc', w') \<Rightarrow> convertAPISettingsToModel_loop L xs acc' w')"
  using decode_loop_append [of L "[x]" xs acc w] by simp

lemma decode_loop_single:
  "(\<exists>s. convertAPISettingsToModel_loop L [x] acc w = (acc @ [s], w))
   \<or> convertAPISettingsToModel_loop L [x] acc w = (acc, w)
   \<or> (\<exists>e. convertAPISettingsToModel_loop L [x] acc w = (acc, w\<lparr>logs := logs w @ [e]\<rparr>)
           \<and> level e = LevelWarn)"
  by (auto simp: Let_def parseChildSettings_def tflog_def split: option.splits prod.splits)

lemma decode_loop_shape:
  "\<exists>zs new. convertAPISettingsToModel_loop L xs acc w = (acc @ zs, w\<lparr>logs := logs w @ new\<rparr>)
      \<and> length zs \<le> length xs \<and> list_all (\<lambda>e. level e = LevelWarn) new"
proof (induction xs arbitrary: acc w)
  case Nil
  have "convertAPISettingsToModel_loop L [] acc w = (acc @ [], w\<lparr>logs := logs w @ []\<rparr>)" by simp
  moreover have "length ([] :: SettingModel list) \<le> length ([] :: SettingsCatalogPolicySetting list)" by simp
  moreover have "list_all (\<lambda>e. level e = LevelWarn) ([] :: LogEntry list)" by simp
  ultimately show ?case by blast
next
  case (Cons x xs)
  from decode_loop_single [of L x acc w] consider
      (add) s where "convertAPISettingsToModel_loop L [x] acc w = (acc @ [s], w)"
    | (skip) "convertAPISettingsToModel_loop L [x] acc w = (acc, w)"
    | (warn) e where "convertAPISettingsToModel_loop L [x] acc w = (acc, w\<lparr>logs := logs w @ [e]\<rparr>)"
                     "level e = LevelWarn"
    by blast
  then show ?case
  proof cases
    case add
    from Cons.IH [of "acc @ [s]" w] obtain zs new where
      r: "convertAPISettingsToModel_loop L xs (acc @ [s]) w = ((acc @ [s]) @ zs, w\<lparr>logs := logs w @ new\<rparr>)"
         "length zs \<le> length xs" "list_all (\<lambda>e. level e = LevelWarn) new"
      by blast
    have "convertAPISettingsToModel_loop L (x # xs) acc w = (acc @ (s # zs), w\<lparr>logs := logs w @ new\<rparr>)"
      using add r(1) by (subst decode_loop_Cons) (simp del: convertAPISettingsToModel_loop.simps)
    moreover have "length (s # zs) \<le> length (x # xs)" using r(2) by simp
    ultimately show ?thesis using r(3) by blast
  next
    case skip
    from Cons.IH [of acc w] obtain zs new where
      r: "convertAPISettingsToModel_loop L xs acc w = (acc @ zs, w\<lparr>logs := logs w @ new\<rparr>)"
         "length zs \<le> length xs" "list_all (\<lambda>e. level e = LevelWarn) new"
      by blast
    have "convertAPISettingsToModel_loop L (x # xs) acc w = (acc @ zs, w\<lparr>logs := logs w @ new\<rparr>)"
      using skip r(1) by (subst decode_loop_Cons) (simp del: convertAPISettingsToModel_loop.simps)
    moreover have "length zs \<le> length (x # xs)" using r(2) by simp
    ultimately show ?thesis using r(3) by blast
  next
    case warn
    from Cons.IH [of acc "w\<lparr>logs := logs w @ [e]\<rparr>"] obtain zs new where
      r: "convertAPISettingsToModel_loop L xs acc (w\<lparr>logs := logs w @ [e]\<rparr>) =
            (acc @ zs, w\<lparr>logs := logs w @ [e]\<rparr>\<lparr>logs := logs (w\<lparr>logs := logs w @ [e]\<rparr>) @ new\<rparr>)"
         "length zs \<le> length xs" "list_all (\<lambda>e. level e = LevelWarn) new"
      by blast
    have "convertAPISettingsToModel_loop L (x # xs) acc w = (acc @ zs, w\<lparr>logs := logs w @ (e # new)\<rparr>)"
      using warn(1) r(1) by (subst decode_loop_Cons) (simp del: convertAPISettingsToModel_loop.simps)
    moreover have "length zs \<le> length (x # xs)" using r(2) by simp
    moreover have "list_all (\<lambda>e. level e = LevelWarn) (e # new)" using warn(2) r(3) by simp
    ultimately show ?thesis by blast
  qed
qed

lemma decode_loop_diags: "diags (snd (convertAPISettingsToModel_loop L xs acc w)) = diags w"
  using decode_loop_shape [of L xs acc w] by auto

lemma decode_diags: "diags (snd (convertAPISettingsToModel L xs w)) = diags w"
  using decode_loop_diags [of L xs "[]" w]
  by (auto simp add: convertAPISettingsToModel_def split: prod.splits)

lemma decode_loop_length:
  "length (fst (convertAPISettingsToModel_loop L xs acc w)) \<le> length acc + length xs"
  using decode_loop_shape [of L xs acc w] by auto

lemma decode_loop_prefix:
  "\<exists>zs. fst (convertAPISettingsToModel_loop L xs acc w) = acc @ zs"
  using decode_loop_shape [of L xs acc w] by auto

lemma decode_fst:
  "fst (convertAPISettingsToModel L xs w) =
     (if fst (convertAPISettingsToModel_loop L xs [] w) = [] then None
      else Some (fst (convertAPISettingsToModel_loop L xs [] w)))"
  by (simp add: convertAPISettingsToModel_def split: prod.splits)

lemma decode_snd:
  "snd (convertAPISettingsToModel L xs w) = snd (convertAPISettingsToModel_loop L xs [] w)"
  by (simp add: convertAPISettingsToModel_def split: prod.splits)

lemma decode_loop_fallback_step:
  assumes "pcs_SettingInstance e = Some i" "si_SimpleSettingValue i = Some ssv"
          "ssv_ODataType ssv \<notin> {odata_StringValue, odata_IntegerValue, odata_BooleanValue}"
  shows "convertAPISettingsToModel_loop L (e # ys) acc w =
           convertAPISettingsToModel_loop L ys
             (acc @ [\<lparr>DefinitionID = Some (si_SettingDefinitionId i), ValueType = Some ''string'',
                       Value = Some (sprintf_v (ssv_Value ssv)), Children = None\<rparr>]) w"
  using assms by (simp add: parseSimpleSettingValue_def Let_def)

text \<open>
  Claim C5.  A top-level wire element whose simple value carries a subtype tag other than
  the three known ones is decoded as a declared setting of value type \<open>string\<close> whose
  value is the \<open>%v\<close> text of the wire value.  The elements before it and after it are
  decoded as usual, the result is a list that holds the fallback element, and no diagnostic
  is added.
\<close>

theorem unknown_subtype_decodes_as_string:
  assumes "pcs_SettingInstance e = Some i" "si_SimpleSettingValue i = Some ssv"
          "ssv_ODataType ssv \<notin> {odata_StringValue, odata_IntegerValue, odata_BooleanValue}"
  shows "convertAPISettingsToModel_loop L (xs @ e # ys) acc w =
           (case convertAPISettingsToModel_loop L xs acc w of
              (acc', w') \<Rightarrow>
                convertAPISettingsToModel_loop L ys
                  (acc' @ [\<lparr>DefinitionID = Some (si_SettingDefinitionId i), ValueType = Some ''string'',
                             Value = Some (sprintf_v (ssv_Value ssv)), Children = None\<rparr>]) w')
       \<and> (\<exists>settings. fst (convertAPISettingsToModel L (xs @ e # ys) w) = Some settings
             \<and> \<lparr>DefinitionID = Some (si_SettingDefinitionId i), ValueType = Some ''string'',
                  Value = Some (sprintf_v (ssv_Value ssv)), Children = None\<rparr> \<in> set settings)
       \<and> diags (snd (convertAPISettingsToModel L (xs @ e # ys) w)) = diags w"
proof -
  let ?f = "\<lparr>DefinitionID = Some (si_SettingDefinitionId i), ValueType = Some ''string'',
             Value = Some (sprintf_v (ssv_Value ssv)), Children = None\<rparr>"
  have step: "\<And>acc w. convertAPISettingsToModel_loop L (xs @ e # ys) acc w =
           (case convertAPISettingsToModel_loop L xs acc w of
              (acc', w') \<Rightarrow> convertAPISettingsToModel_loop L ys (acc' @ [?f]) w')"
    by (simp add: decode_loop_append decode_loop_fallback_step [OF assms]
             del: convertAPISettingsToModel_loop.simps)
  obtain a w' where a: "convertAPISettingsToModel_loop L xs [] w = (a, w')"
    by (cases "convertAPISettingsToModel_loop L xs [] w")
  obtain zs where zs: "fst (convertAPISettingsToModel_loop L ys (a @ [?f]) w') = (a @ [?f]) @ zs"
    using decode_loop_prefix by blast
  have "fst (convertAPISettingsToModel_loop L (xs @ e # ys) [] w) = a @ [?f] @ zs"
    using step [of "[]" w] a zs by simp
  then have "fst (convertAPISettingsToModel L (xs @ e # ys) w) = Some (a @ [?f] @ zs)"
    by (simp add: decode_fst)
  then have "\<exists>settings. fst (convertAPISettingsToModel L (xs @ e # ys) w) = Some settings \<and> ?f \<in> set settings"
    by simp
  then show ?thesis using step [of acc w] decode_diags by blast
qed

lemma decode_loop_skip_step:
  assumes "case pcs_SettingInstance e of None \<Rightarrow> True | Some i \<Rightarrow> unknown_shape i"
  shows "convertAPISettingsToModel_loop L (e # ys) acc w =
           convertAPISettingsToModel_loop L ys acc
             (case pcs_SettingInstance e of
                None \<Rightarrow> w
              | Some i \<Rightarrow>
                  tflog LevelWarn ''Unknown setting type''
                    [(''definition_id'', VString (si_SettingDefinitionId i)),
                     (''odata_type'', VString (si_ODataType i))] w)"
proof (cases "pcs_SettingInstance e")
  case None
  then show ?thesis by simp
next
  case (Some i)
  with assms have "unknown_shape i" by simp
  then show ?thesis using Some by (simp add: unknown_shape_def Let_def)
qed

text \<open>
  Claim C9, as the code has it.  A top-level wire element whose instance is nil, or whose
  instance populates none of the four value fields the decoder knows (for instance one
  that carries a group setting collection only), adds no declared setting: the elements
  around it are decoded as usual and the decoded list is strictly shorter than the wire
  list.  For a nil instance nothing at all is emitted; for an instance of unknown shape one
  warning is written to the log.  No diagnostic is added, and all that decoding writes to
  the log are warnings.  The \<open>string\<close> fallback of C5 is not applied to such an element.
\<close>

theorem unknown_shape_skipped_with_warning:
  assumes "case pcs_SettingInstance e of None \<Rightarrow> True | Some i \<Rightarrow> unknown_shape i"
  shows "convertAPISettingsToModel_loop L (xs @ e # ys) acc w =
           (case convertAPISettingsToModel_loop L xs acc w of
              (acc', w') \<Rightarrow>
                convertAPISettingsToModel_loop L ys acc'
                  (case pcs_SettingInstance e of
                     None \<Rightarrow> w'
                   | Some i \<Rightarrow>
                       tflog LevelWarn ''Unknown setting type''
                         [(''definition_id'', VString (si_SettingDefinitionId i)),
                          (''odata_type'', VString (si_ODataType i))] w'))
       \<and> (case fst (convertAPISettingsToModel L (xs @ e # ys) w) of
             None \<Rightarrow> True
           | Some settings \<Rightarrow> length settings < length (xs @ e # ys))
       \<and> diags (snd (convertAPISettingsToModel L (xs @ e # ys) w)) = diags w
       \<and> (\<exists>new. logs (snd (convertAPISettingsToModel L (xs @ e # ys) w)) = logs w @ new
                 \<and> list_all (\<lambda>entry. level entry = LevelWarn) new)"
proof -
  let ?log = "\<lambda>w'. case pcs_SettingInstance e of
                     None \<Rightarrow> w'
                   | Some i \<Rightarrow>
                       tflog LevelWarn ''Unknown setting type''
                         [(''definition_id'', VString (si_SettingDefinitionId i)),
                          (''odata_type'', VString (si_ODataType i))] w'"
  have step: "\<And>acc w. convertAPISettingsToModel_loop L (xs @ e # ys) acc w =
           (case convertAPISettingsToModel_loop L xs acc w of
              (acc', w') \<Rightarrow> convertAPISettingsToModel_loop L ys acc' (?log w'))"
    by (simp add: decode_loop_append decode_loop_skip_step [OF assms]
             del: convertAPISettingsToModel_loop.simps)
  obtain a w' where a: "convertAPISettingsToModel_loop L xs [] w = (a, w')"
    by (cases "convertAPISettingsToModel_loop L xs [] w")
  have la: "length a \<le> length xs"
    using decode_loop_length [of L xs "[]" w] a by simp
  have "length (fst (convertAPISettingsToModel_loop L ys a (?log w'))) \<le> length a + length ys"
    by (rule decode_loop_length)
  then have "length (fst (convertAPISettingsToModel_loop L (xs @ e # ys) [] w)) < length (xs @ e # ys)"
    using step [of "[]" w] a la by simp
  then have len: "case fst (convertAPISettingsToModel L (xs @ e # ys) w) of
             None \<Rightarrow> True | Some settings \<Rightarrow> length settings < length (xs @ e # ys)"
    by (simp add: decode_fst)
  obtain zs new where
    s: "convertAPISettingsToModel_loop L (xs @ e # ys) [] w = ([] @ zs, w\<lparr>logs := logs w @ new\<rparr>)"
       "list_all (\<lambda>entry. level entry = LevelWarn) new"
    using decode_loop_shape [of L "xs @ e # ys" "[]" w] by blast
  have "logs (snd (convertAPISettingsToModel L (xs @ e # ys) w)) = logs w @ new"
    using s(1) by (simp add: decode_snd)
  then have lg: "\<exists>new. logs (snd (convertAPISettingsToModel L (xs @ e # ys) w)) = logs w @ new
                 \<and> list_all (\<lambda>entry. level entry = LevelWarn) new"
    using s(2) by blast
  show ?thesis using step [of acc w] len lg decode_diags by blast
qed

text \<open>
  A secret setting value between a string and a boolean.
\<close>

theorem unknown_subtype_decodes_as_string_witness:
  "pcs_SettingInstance
     (SettingsCatalogPolicySetting odata_Setting ''1''
        (Some (SettingInstance odata_SimpleInstance ''wifi_psk'' None
           (Some (SimpleSettingValue ''#microsoft.graph.deviceManagementConfigurationSecretSettingValue''
                    (VString ''hunter2''))) None [] None [])))
     = Some (SettingInstance odata_SimpleInstance ''wifi_psk'' None
           (Some (SimpleSettingValue ''#microsoft.graph.deviceManagementConfigurationSecretSettingValue''
                    (VString ''hunter2''))) None [] None [])
   \<and> ''#microsoft.graph.deviceManagementConfigurationSecretSettingValue''
         \<notin> {odata_StringValue, odata_IntegerValue, odata_BooleanValue}
   \<and> convertAPISettingsToModel plain_lib
       [SettingsCatalogPolicySetting odata_Setting ''0''
          (Some (SettingInstance odata_SimpleInstance ''ssid'' None
             (Some (SimpleSettingValue odata_StringValue (VString ''office''))) None [] None [])),
        SettingsCatalogPolicySetting odata_Setting ''1''
          (Some (SettingInstance odata_SimpleInstance ''wifi_psk'' None
             (Some (SimpleSettingValue ''#microsoft.graph.deviceManagementConfigurationSecretSettingValue''
                      (VString ''hunter2''))) None [] None [])),
        SettingsCatalogPolicySetting odata_Setting ''2''
          (Some (SettingInstance odata_SimpleInstance ''hidden'' None
             (Some (SimpleSettingValue odata_BooleanValue (VBool False))) None [] None []))]
       w_empty
     = (Some [\<lparr>DefinitionID = Some ''ssid'', ValueType = Some ''string'', Value = Some ''office'', Children = None\<rparr>,
              \<lparr>DefinitionID = Some ''wifi_psk'', ValueType = Some ''string'', Value = Some ''hunter2'', Children = None\<rparr>,
              \<lparr>DefinitionID = Some ''hidden'', ValueType = Some ''boolean'', Value = Some ''false'', Children = None\<rparr>],
        w_empty)"
proof -
  let ?ssv = "SimpleSettingValue ''#microsoft.graph.deviceManagementConfigurationSecretSettingValue'' (VString ''hunter2'')"
  let ?i = "SettingInstance odata_SimpleInstance ''wifi_psk'' None (Some ?ssv) None [] None []"
  let ?e = "SettingsCatalogPolicySetting odata_Setting ''1'' (Some ?i)"
  let ?e1 = "SettingsCatalogPolicySetting odata_Setting ''0''
          (Some (SettingInstance odata_SimpleInstance ''ssid'' None
             (Some (SimpleSettingValue odata_StringValue (VString ''office''))) None [] None []))"
  let ?e2 = "SettingsCatalogPolicySetting odata_Setting ''2''
          (Some (SettingInstance odata_SimpleInstance ''hidden'' None
             (Some (SimpleSettingValue odata_BooleanValue (VBool False))) None [] None []))"
  have h1: "pcs_SettingInstance ?e = Some ?i" by simp
  have h2: "si_SimpleSettingValue ?i = Some ?ssv" by simp
  have h3: "ssv_ODataType ?ssv \<notin> {odata_StringValue, odata_IntegerValue, odata_BooleanValue}" by simp
  have "convertAPISettingsToModel_loop plain_lib ([?e1] @ ?e # [?e2]) [] w_empty =
           (case convertAPISettingsToModel_loop plain_lib [?e1] [] w_empty of
              (acc', w') \<Rightarrow>
                convertAPISettingsToModel_loop plain_lib [?e2]
                  (acc' @ [\<lparr>DefinitionID = Some (si_SettingDefinitionId ?i), ValueType = Some ''string'',
                             Value = Some (sprintf_v (ssv_Value ?ssv)), Children = None\<rparr>]) w')"
    using unknown_subtype_decodes_as_string [OF h1 h2 h3, of plain_lib "[?e1]" "[?e2]" "[]" w_empty]
    by (rule conjunct1)
  then have "convertAPISettingsToModel_loop plain_lib [?e1, ?e, ?e2] [] w_empty =
      ([\<lparr>DefinitionID = Some ''ssid'', ValueType = Some ''string'', Value = Some ''office'', Children = None\<rparr>,
              \<lparr>DefinitionID = Some ''wifi_psk'', ValueType = Some ''string'', Value = Some ''hunter2'', Children = None\<rparr>,
              \<lparr>DefinitionID = Some ''hidden'', ValueType = Some ''boolean'', Value = Some ''false'', Children = None\<rparr>],
        w_empty)"
    by simp
  then show ?thesis
    using h3 by (simp add: convertAPISettingsToModel_def del: convertAPISettingsToModel_loop.simps)
qed

text \<open>
  A string setting followed by a group setting collection instance.
\<close>

theorem unknown_shape_skipped_with_warning_witness:
  "unknown_shape
     (SettingInstance ''#microsoft.graph.deviceManagementConfigurationGroupSettingCollectionInstance''
        ''firewall_rules'' None None None [] None [GroupSettingValue odata_GroupValue []])
   \<and> convertAPISettingsToModel plain_lib
       [SettingsCatalogPolicySetting odata_Setting ''0''
          (Some (SettingInstance odata_SimpleInstance ''ssid'' None
             (Some (SimpleSettingValue odata_StringValue (VString ''office''))) None [] None [])),
        SettingsCatalogPolicySetting odata_Setting ''1''
          (Some (SettingInstance ''#microsoft.graph.deviceManagementConfigurationGroupSettingCollectionInstance''
             ''firewall_rules'' None None None [] None [GroupSettingValue odata_GroupValue []]))]
       w_empty
     = (Some [\<lparr>DefinitionID = Some ''ssid'', ValueType = Some ''string'', Value = Some ''office'', Children = None\<rparr>],
        \<lparr>diags = [],
         logs = [\<lparr>level = LevelWarn, message = ''Unknown setting type'',
                  log_fields = [(''definition_id'', VString ''firewall_rules''),
                                (''odata_type'', VString ''#microsoft.graph.deviceManagementConfigurationGroupSettingCollectionInstance'')]\<rparr>],
         requests = []\<rparr>)"
proof -
  let ?i = "SettingInstance ''#microsoft.graph.deviceManagementConfigurationGroupSettingCollectionInstance''
        ''firewall_rules'' None None None [] None [GroupSettingValue odata_GroupValue []]"
  let ?e = "SettingsCatalogPolicySetting odata_Setting ''1'' (Some ?i)"
  let ?e1 = "SettingsCatalogPolicySetting odata_Setting ''0''
          (Some (SettingInstance odata_SimpleInstance ''ssid'' None
             (Some (SimpleSettingValue odata_StringValue (VString ''office''))) None [] None []))"
  have u: "unknown_shape ?i" by (simp add: unknown_shape_def)
  then have h: "case pcs_SettingInstance ?e of None \<Rightarrow> True | Some i \<Rightarrow> unknown_shape i" by simp
  have "convertAPISettingsToModel_loop plain_lib ([?e1] @ ?e # []) [] w_empty =
           (case convertAPISettingsToModel_loop plain_lib [?e1] [] w_empty of
              (acc', w') \<Rightarrow>
                convertAPISettingsToModel_loop plain_lib [] acc'
                  (case pcs_SettingInstance ?e of
                     None \<Rightarrow> w'
                   | Some i \<Rightarrow>
                       tflog LevelWarn ''Unknown setting type''
                         [(''definition_id'', VString (si_SettingDefinitionId i)),
                          (''odata_type'', VString (si_ODataType i))] w'))"
    using unknown_shape_skipped_with_warning [OF h, of plain_lib "[?e1]" "[]" "[]" w_empty]
    by (rule conjunct1)
  then have "convertAPISettingsToModel_loop plain_lib [?e1, ?e] [] w_empty =
      ([\<lparr>DefinitionID = Some ''ssid'', ValueType = Some ''string'', Value = Some ''office'', Children = None\<rparr>],
        \<lparr>diags = [],
         logs = [\<lparr>level = LevelWarn, message = ''Unknown setting type'',
                  log_fields = [(''definition_id'', VString ''firewall_rules''),
                                (''odata_type'', VString ''#microsoft.graph.deviceManagementConfigurationGroupSettingCollectionInstance'')]\<rparr>],
         requests = []\<rparr>)"
    by (simp add: tflog_def w_empty_def)
  then show ?thesis
    using u by (simp add: convertAPISettingsToModel_def del: convertAPISettingsToModel_loop.simps)
qed

text \<open>
  C9 as stated has every skipped element emit a log warning.  A wire element whose instance
  is nil is skipped with nothing written: decoding it from a state with an empty log ends
  with an empty log.
\<close>

theorem nil_instance_no_warning_counterexample:
  "convertAPISettingsToModel plain_lib
     [SettingsCatalogPolicySetting odata_Setting ''0'' None]
     \<lparr>diags = [], logs = [], requests = []\<rparr>
   = (None, \<lparr>diags = [], logs = [], requests = []\<rparr>)"
  by (simp add: convertAPISettingsToModel_def)

section \<open>Collections and empty groups\<close>

text \<open>
  Claim C6, as the code has it.  Let \<open>xs\<close> be a list of strings that is not empty and that
  \<open>encoding/json\<close> reads back from its own serialization.  Encoding a collection setting
  whose value is that serialization gives one wire string value per element, in index
  order; the strings decoding hands to \<open>json.Marshal\<close> are \<open>xs\<close> again, in the same
  order, and the decoded setting carries the serialization of \<open>xs\<close>.
\<close>

theorem collection_roundtrip_in_order:
  assumes "json_Unmarshal L (json_Marshal L xs) = Inr (map VString xs)" and "xs \<noteq> []"
  shows "convertSettingInstance L
           \<lparr>DefinitionID = d, ValueType = Some ''collection'', Value = Some (json_Marshal L xs), Children = c\<rparr> w
         = (Some (SettingInstance odata_CollectionInstance (ValueString d) None None None
                    (map (\<lambda>x. SimpleSettingValue odata_StringValue (VString x)) xs) None []), w)
       \<and> map (\<lambda>v. sprintf_v (ssv_Value v)) (map (\<lambda>x. SimpleSettingValue odata_StringValue (VString x)) xs) = xs
       \<and> convertAPISettingsToModel L
           [SettingsCatalogPolicySetting odata_Setting []
              (Some (SettingInstance odata_CollectionInstance (ValueString d) None None None
                       (map (\<lambda>x. SimpleSettingValue odata_StringValue (VString x)) xs) None []))] w
         = (Some [\<lparr>DefinitionID = Some (ValueString d), ValueType = Some ''collection'',
                   Value = Some (json_Marshal L xs), Children = None\<rparr>], w)"
proof -
  have m: "map (\<lambda>v. sprintf_v (ssv_Value v)) (map (\<lambda>x. SimpleSettingValue odata_StringValue (VString x)) xs) = xs"
    by (simp add: comp_def)
  have enc: "convertSettingInstance L
           \<lparr>DefinitionID = d, ValueType = Some ''collection'', Value = Some (json_Marshal L xs), Children = c\<rparr> w
         = (Some (SettingInstance odata_CollectionInstance (ValueString d) None None None
                    (map (\<lambda>x. SimpleSettingValue odata_StringValue (VString x)) xs) None []), w)"
    using assms(1) by (simp add: convertSettingInstance_collection comp_def)
  have dec: "convertAPISettingsToModel L
           [SettingsCatalogPolicySetting odata_Setting []
              (Some (SettingInstance odata_CollectionInstance (ValueString d) None None None
                       (map (\<lambda>x. SimpleSettingValue odata_StringValue (VString x)) xs) None []))] w
         = (Some [\<lparr>DefinitionID = Some (ValueString d), ValueType = Some ''collection'',
                   Value = Some (json_Marshal L xs), Children = None\<rparr>], w)"
    using assms(2) by (simp add: convertAPISettingsToModel_def comp_def)
  from enc m dec show ?thesis by blast
qed

lemma plain_roundtrip_abc:
  "json_Unmarshal plain_lib (json_Marshal plain_lib [''a'', ''b'', ''c'']) = Inr (map VString [''a'', ''b'', ''c''])"
  by (simp add: plain_lib_def plain_Marshal_def plain_Quote_def plain_Unmarshal_def is_ws_def is_plain_def)

text \<open>
  The list \<open>["a","b","c"]\<close>.
\<close>

theorem collection_roundtrip_in_order_witness:
  "json_Unmarshal plain_lib (json_Marshal plain_lib [''a'', ''b'', ''c'']) = Inr (map VString [''a'', ''b'', ''c''])
   \<and> [''a'', ''b'', ''c''] \<noteq> []
   \<and> convertSettingInstance plain_lib
           \<lparr>DefinitionID = Some ''tags'', ValueType = Some ''collection'',
            Value = Some (json_Marshal plain_lib [''a'', ''b'', ''c'']), Children = None\<rparr> w_empty
         = (Some (SettingInstance odata_CollectionInstance ''tags'' None None None
                    [SimpleSettingValue odata_StringValue (VString ''a''),
                     SimpleSettingValue odata_StringValue (VString ''b''),
                     SimpleSettingValue odata_StringValue (VString ''c'')] None []), w_empty)
   \<and> convertAPISettingsToModel plain_lib
           [SettingsCatalogPolicySetting odata_Setting []
              (Some (SettingInstance odata_CollectionInstance ''tags'' None None None
                    [SimpleSettingValue odata_StringValue (VString ''a''),
                     SimpleSettingValue odata_StringValue (VString ''b''),
                     SimpleSettingValue odata_StringValue (VString ''c'')] None []))] w_empty
         = (Some [\<lparr>DefinitionID = Some ''tags'', ValueType = Some ''collection'',
                   Value = Some (json_Marshal plain_lib [''a'', ''b'', ''c'']), Children = None\<rparr>], w_empty)"
proof -
  have h1: "json_Unmarshal plain_lib (json_Marshal plain_lib [''a'', ''b'', ''c'']) = Inr (map VString [''a'', ''b'', ''c''])"
    by (rule plain_roundtrip_abc)
  have h2: "[''a'', ''b'', ''c''] \<noteq> []" by simp
  from collection_roundtrip_in_order [OF h1 h2, of "Some ''tags''" None w_empty] h1 h2
  show ?thesis by simp
qed

text \<open>
  C6 fails for the empty list: the value \<open>[]\<close> is encoded to an instance without any
  collection value, and decoding that wire node skips it with a warning: the declared
  list comes back null, with no collection setting in it.
\<close>

theorem empty_collection_counterexample:
  "json_Marshal plain_lib [] = ''[]''
   \<and> json_Unmarshal plain_lib ''[]'' = Inr []
   \<and> convertSettingInstance plain_lib
        \<lparr>DefinitionID = Some ''tags'', ValueType = Some ''collection'', Value = Some ''[]'', Children = None\<rparr>
        \<lparr>diags = [], logs = [], requests = []\<rparr>
      = (Some (SettingInstance odata_CollectionInstance ''tags'' None None None [] None []),
         \<lparr>diags = [], logs = [], requests = []\<rparr>)
   \<and> convertAPISettingsToModel plain_lib
        [SettingsCatalogPolicySetting odata_Setting []
           (Some (SettingInstance odata_CollectionInstance ''tags'' None None None [] None []))]
        \<lparr>diags = [], logs = [], requests = []\<rparr>
      = (None,
         \<lparr>diags = [],
          logs = [\<lparr>level = LevelWarn, message = ''Unknown setting type'',
                   log_fields = [(''definition_id'', VString ''tags''),
                                 (''odata_type'', VString odata_CollectionInstance)]\<rparr>],
          requests = []\<rparr>)"
proof -
  have u: "json_Unmarshal plain_lib ''[]'' = Inr []"
    by (simp add: plain_lib_def plain_Unmarshal_def is_ws_def)
  have m: "json_Marshal plain_lib [] = ''[]''"
    by (simp add: plain_lib_def plain_Marshal_def)
  show ?thesis
    using u m by (simp add: convertSettingInstance_collection convertAPISettingsToModel_def tflog_def)
qed

text \<open>
  Claim C7.  A group setting whose list of children is null or empty is encoded to a group
  value without children; in the JSON form of the instance the group value has its subtype
  tag only, no \<open>children\<close> member.  Decoding the wire node gives a group setting with the
  null value and the null list of children.
\<close>

theorem group_without_children:
  assumes "c = None \<or> c = Some []"
  shows "convertSettingInstance L \<lparr>DefinitionID = d, ValueType = Some ''group'', Value = v, Children = c\<rparr> w
         = (Some (SettingInstance odata_GroupInstance (ValueString d) None None None []
                    (Some (GroupSettingValue odata_GroupValue [])) []), w)
       \<and> marshal_SettingInstance
           (SettingInstance odata_GroupInstance (ValueString d) None None None []
              (Some (GroupSettingValue odata_GroupValue [])) [])
         = JObject [(''@odata.type'', JString odata_GroupInstance),
                    (''settingDefinitionId'', JString (ValueString d)),
                    (''groupSettingValue'', JObject [(''@odata.type'', JString odata_GroupValue)])]
       \<and> convertAPISettingsToModel L
           [SettingsCatalogPolicySetting odata_Setting []
              (Some (SettingInstance odata_GroupInstance (ValueString d) None None None []
                       (Some (GroupSettingValue odata_GroupValue [])) []))] w
         = (Some [\<lparr>DefinitionID = Some (ValueString d), ValueType = Some ''group'', Value = None,
                   Children = None\<rparr>], w)"
proof -
  have enc: "convertSettingInstance L \<lparr>DefinitionID = d, ValueType = Some ''group'', Value = v, Children = c\<rparr> w
         = (Some (SettingInstance odata_GroupInstance (ValueString d) None None None []
                    (Some (GroupSettingValue odata_GroupValue [])) []), w)"
    using assms by (auto simp add: convertSettingInstance_group)
  show ?thesis
    using enc by (simp add: convertAPISettingsToModel_def omitempty_string_def)
qed

text \<open>
  A group with the empty (not null) list of children.
\<close>

theorem group_without_children_witness:
  "(Some [] = None \<or> Some [] = Some ([] :: ChildSettingModel list))
   \<and> convertSettingInstance plain_lib
        \<lparr>DefinitionID = Some ''bitlocker_group'', ValueType = Some ''group'', Value = None, Children = Some []\<rparr> w_empty
      = (Some (SettingInstance odata_GroupInstance ''bitlocker_group'' None None None []
                 (Some (GroupSettingValue odata_GroupValue [])) []), w_empty)
   \<and> marshal_SettingInstance
        (SettingInstance odata_GroupInstance ''bitlocker_group'' None None None []
           (Some (GroupSettingValue odata_GroupValue [])) [])
      = JObject [(''@odata.type'', JString odata_GroupInstance),
                 (''settingDefinitionId'', JString ''bitlocker_group''),
                 (''groupSettingValue'', JObject [(''@odata.type'', JString odata_GroupValue)])]
   \<and> convertAPISettingsToModel plain_lib
        [SettingsCatalogPolicySetting odata_Setting []
           (Some (SettingInstance odata_GroupInstance ''bitlocker_group'' None None None []
                    (Some (GroupSettingValue odata_GroupValue [])) []))] w_empty
      = (Some [\<lparr>DefinitionID = Some ''bitlocker_group'', ValueType = Some ''group'', Value = None,
                Children = None\<rparr>], w_empty)"
proof -
  have h: "Some [] = None \<or> Some [] = Some ([] :: ChildSettingModel list)" by simp
  from group_without_children [OF h, of plain_lib "Some ''bitlocker_group''" None w_empty] h
  show ?thesis by simp
qed

section \<open>Settings the encoder cannot parse\<close>

lemma addError_fields [simp]:
  "diags (addError s d w) = AddError s d (diags w)"
  "logs (addError s d w) = logs w"
  "requests (addError s d w) = requests w"
  by (simp_all add: addError_def)

lemma tflog_fields [simp]:
  "diags (tflog l m fs w) = diags w"
  "logs (tflog l m fs w) = logs w @ [\<lparr>level = l, message = m, log_fields = fs\<rparr>]"
  "requests (tflog l m fs w) = requests w"
  by (simp_all add: tflog_def)

lemma AddError_mem: "\<lparr>severity = SeverityError, summary = s, detail = d\<rparr> \<in> set (AddError s d ds)"
  by (simp add: AddError_def Let_def)

lemma AddError_mono: "set ds \<subseteq> set (AddError s d ds)"
  by (auto simp add: AddError_def Let_def)

lemma HasError_mem: "dg \<in> set ds \<Longrightarrow> severity dg = SeverityError \<Longrightarrow> HasError ds"
  by (auto simp: HasError_def list_ex_iff)

lemma HasError_AddError: "HasError (AddError s d ds)"
  by (rule HasError_mem [OF AddError_mem]) simp

lemma convertChildSetting_frame:
  "set (diags w) \<subseteq> set (diags (snd (convertChildSetting L c w)))
   \<and> requests (snd (convertChildSetting L c w)) = requests w"
  using AddError_mono
  by (auto simp: convertChildSetting_def Let_def split: sum.splits)

lemma convertChildren_frame:
  "set (diags w) \<subseteq> set (diags (snd (convertChildren L cs acc w)))
   \<and> requests (snd (convertChildren L cs acc w)) = requests w"
proof (induction cs arbitrary: acc w)
  case Nil
  then show ?case by simp
next
  case (Cons c cs)
  obtain r w' where r: "convertChildSetting L c w = (r, w')"
    by (cases "convertChildSetting L c w")
  have f: "set (diags w) \<subseteq> set (diags w')" "requests w' = requests w"
    using convertChildSetting_frame [of w L c] r by simp_all
  show ?case
  proof (cases r)
    case None
    then show ?thesis using r f Cons.IH [of w' acc] by auto
  next
    case (Some x)
    then show ?thesis using r f Cons.IH [of w' "acc @ [x]"] by auto
  qed
qed

lemma convertChildren_frameD:
  "convertChildren L cs acc w = (r, w') \<Longrightarrow> set (diags w) \<subseteq> set (diags w') \<and> requests w' = requests w"
  using convertChildren_frame [of w L cs acc] by simp

lemma ValueType_cases:
  fixes s :: "'a ChildSettingModel_scheme"
  obtains (str) "ValueType s = Some ''string''"
        | (int) "ValueType s = Some ''integer''"
        | (bool) "ValueType s = Some ''boolean''"
        | (choice) "ValueType s = Some ''choice''"
        | (coll) "ValueType s = Some ''collection''"
        | (grp) "ValueType s = Some ''group''"
        | (other) "ValueString (ValueType s) \<notin> {''string'', ''integer'', ''boolean'', ''choice'', ''collection'', ''group''}"
  by (cases "ValueType s") auto

lemma convertSettingInstance_other:
  "ValueString (ValueType s) \<notin> {''string'', ''integer'', ''boolean'', ''choice'', ''collection'', ''group''} \<Longrightarrow>
   convertSettingInstance L s w =
     (Some (SettingInstance [] (ValueString (DefinitionID s)) None None None [] None []), w)"
  by (simp add: convertSettingInstance_def Let_def)

lemma convertSettingInstance_frame:
  "set (diags w) \<subseteq> set (diags (snd (convertSettingInstance L s w)))
   \<and> requests (snd (convertSettingInstance L s w)) = requests w"
proof -
  show ?thesis
  proof (cases s rule: ValueType_cases)
    case str
    then show ?thesis by (simp add: convertSettingInstance_string)
  next
    case int
    then show ?thesis
      using AddError_mono by (auto simp add: convertSettingInstance_integer split: sum.splits)
  next
    case bool
    then show ?thesis by (simp add: convertSettingInstance_boolean)
  next
    case choice
    then show ?thesis
      by (auto simp add: convertSettingInstance_choice simp del: convertChildren.simps
               split: option.splits list.splits prod.splits dest!: convertChildren_frameD)
  next
    case coll
    then show ?thesis
      using AddError_mono by (auto simp add: convertSettingInstance_collection split: sum.splits)
  next
    case grp
    then show ?thesis
      by (auto simp add: convertSettingInstance_group simp del: convertChildren.simps
               split: option.splits list.splits prod.splits dest!: convertChildren_frameD)
  next
    case other
    then show ?thesis by (simp add: convertSettingInstance_other)
  qed
qed

lemma unparsable_severity: "unparsable L s = Some dg \<Longrightarrow> severity dg = SeverityError"
  by (auto simp: unparsable_def Let_def split: if_splits sum.splits)

lemma unparsable_adds:
  assumes "unparsable L s = Some dg"
  shows "dg \<in> set (diags (snd (convertSettingInstance L s w)))"
proof -
  let ?v = "ValueString (Value s)"
  from assms consider
      (int) e where "ValueType s = Some ''integer''" "ParseInt ?v = Inl e"
        "dg = \<lparr>severity = SeverityError, summary = ''Invalid Integer Value'',
               detail = msg_not_integer ?v (NumError_Error L ?v e)\<rparr>"
    | (coll) e where "ValueType s = Some ''collection''" "json_Unmarshal L ?v = Inl e"
        "dg = \<lparr>severity = SeverityError, summary = ''Invalid Collection Value'',
               detail = msg_not_json_array ?v e\<rparr>"
    by (auto simp: unparsable_def Let_def split: if_splits sum.splits)
  then show ?thesis
  proof cases
    case int
    then show ?thesis by (simp add: convertSettingInstance_integer AddError_mem)
  next
    case coll
    then show ?thesis by (simp add: convertSettingInstance_collection AddError_mem)
  qed
qed

lemma convertToAPISettings_loop_frame:
  "set (diags w) \<subseteq> set (diags (snd (convertToAPISettings_loop L ss acc w)))
   \<and> requests (snd (convertToAPISettings_loop L ss acc w)) = requests w"
proof (induction ss arbitrary: acc w)
  case Nil
  then show ?case by simp
next
  case (Cons s ss)
  obtain r w' where r: "convertSettingInstance L s w = (r, w')"
    by (cases "convertSettingInstance L s w")
  have f: "set (diags w) \<subseteq> set (diags w')" "requests w' = requests w"
    using convertSettingInstance_frame [of w L s] r by simp_all
  show ?case
    using r f Cons.IH [of w' "acc @ [SettingsCatalogPolicySetting odata_Setting [] r]"] by auto
qed

lemma convertToAPISettings_loop_unparsable:
  assumes "s \<in> set ss" "unparsable L s = Some dg"
  shows "dg \<in> set (diags (snd (convertToAPISettings_loop L ss acc w)))"
  using assms(1)
proof (induction ss arbitrary: acc w)
  case Nil
  then show ?case by simp
next
  case (Cons x ss)
  obtain r w' where r: "convertSettingInstance L x w = (r, w')"
    by (cases "convertSettingInstance L x w")
  let ?acc = "acc @ [SettingsCatalogPolicySetting odata_Setting [] r]"
  have step: "convertToAPISettings_loop L (x # ss) acc w = convertToAPISettings_loop L ss ?acc w'"
    using r by simp
  show ?case
  proof (cases "s = x")
    case True
    have "dg \<in> set (diags w')"
      using unparsable_adds [OF assms(2), of w] r True by simp
    then show ?thesis
      using convertToAPISettings_loop_frame [of w' L ss ?acc] step by auto
  next
    case False
    with Cons.prems have "s \<in> set ss" by simp
    from Cons.IH [OF this, of ?acc w'] show ?thesis using step by simp
  qed
qed

lemma convertToAPISettings_unparsable:
  assumes "\<not> HasError (diags w)" "Settings data = Some ss" "s \<in> set ss" "unparsable L s = Some dg"
  shows "dg \<in> set (diags (snd (convertToAPISettings L data w)))"
    and "HasError (diags (snd (convertToAPISettings L data w)))"
    and "requests (snd (convertToAPISettings L data w)) = requests w"
proof -
  have d: "diags (snd (convertToAPISettings L data w)) = diags (snd (convertToAPISettings_loop L ss [] w))"
    using assms(1,2) by (simp add: convertToAPISettings_def split: prod.splits)
  have q: "requests (snd (convertToAPISettings L data w)) = requests (snd (convertToAPISettings_loop L ss [] w))"
    using assms(1,2) by (simp add: convertToAPISettings_def split: prod.splits)
  show m: "dg \<in> set (diags (snd (convertToAPISettings L data w)))"
    using d convertToAPISettings_loop_unparsable [OF assms(3,4)] by simp
  show "HasError (diags (snd (convertToAPISettings L data w)))"
    using m unparsable_severity [OF assms(4)] by (rule HasError_mem)
  show "requests (snd (convertToAPISettings L data w)) = requests w"
    using q convertToAPISettings_loop_frame by simp
qed

text \<open>
  Claim C4, as the code has it.  When the plan was read without error and its list of
  settings holds an integer setting that \<open>ParseInt\<close> rejects or a collection setting
  that \<open>json.Unmarshal\<close> rejects, \<open>Create\<close> and \<open>Update\<close> leave the state untouched and
  hand nothing to the transport (the requests are as before), and the diagnostics hold an
  error whose summary names the kind of failure and whose detail carries the value and the
  text of the parser's error.  That diagnostic is the same whatever the definition id of
  the setting is.
\<close>

theorem unparsable_setting_aborts_write:
  assumes "\<not> HasError (Append (diags w0) pd)" and "Settings data = Some ss" and "s \<in> set ss"
      and "unparsable L s = Some dg"
  shows "fst (Create L c (pd, data) w0) = StateUntouched
       \<and> requests (snd (Create L c (pd, data) w0)) = requests w0
       \<and> dg \<in> set (diags (snd (Create L c (pd, data) w0)))
       \<and> fst (Update L c (pd, data) w0) = StateUntouched
       \<and> requests (snd (Update L c (pd, data) w0)) = requests w0
       \<and> dg \<in> set (diags (snd (Update L c (pd, data) w0)))
       \<and> severity dg = SeverityError
       \<and> unparsable L (s\<lparr>DefinitionID := d'\<rparr>) = Some dg"
proof -
  define w1 where "w1 = w0\<lparr>diags := Append (diags w0) pd\<rparr>"
  have ne: "\<not> HasError (diags w1)" using assms(1) by (simp add: w1_def)
  have crt: "fst (Create L c (pd, data) w0) = StateUntouched
       \<and> requests (snd (Create L c (pd, data) w0)) = requests w0
       \<and> dg \<in> set (diags (snd (Create L c (pd, data) w0)))"
  proof -
    define w2 where "w2 = tflog LevelDebug ''Creating Settings Catalog policy settings''
                         [(''policy_id'', VString (ValueString (PolicyID data)))] w1"
    have ne2: "\<not> HasError (diags w2)" using ne by (simp add: w2_def)
    obtain api w3 where c3: "convertToAPISettings L data w2 = (api, w3)"
      by (cases "convertToAPISettings L data w2")
    have e3: "HasError (diags w3)" "dg \<in> set (diags w3)" "requests w3 = requests w2"
      using convertToAPISettings_unparsable [OF ne2 assms(2,3,4)] c3 by simp_all
    have "Create L c (pd, data) w0 = (StateUntouched, w3)"
      using ne c3 e3(1) by (simp add: Create_def Let_def w1_def [symmetric] w2_def [symmetric])
    then show ?thesis using e3 by (simp add: w2_def w1_def)
  qed
  have upd: "fst (Update L c (pd, data) w0) = StateUntouched
       \<and> requests (snd (Update L c (pd, data) w0)) = requests w0
       \<and> dg \<in> set (diags (snd (Update L c (pd, data) w0)))"
  proof -
    define w2 where "w2 = tflog LevelDebug ''Updating Settings Catalog policy settings''
                         [(''policy_id'', VString (ValueString (PolicyID data)))] w1"
    have ne2: "\<not> HasError (diags w2)" using ne by (simp add: w2_def)
    obtain api w3 where c3: "convertToAPISettings L data w2 = (api, w3)"
      by (cases "convertToAPISettings L data w2")
    have e3: "HasError (diags w3)" "dg \<in> set (diags w3)" "requests w3 = requests w2"
      using convertToAPISettings_unparsable [OF ne2 assms(2,3,4)] c3 by simp_all
    have "Update L c (pd, data) w0 = (StateUntouched, w3)"
      using ne c3 e3(1) by (simp add: Update_def Let_def w1_def [symmetric] w2_def [symmetric])
    then show ?thesis using e3 by (simp add: w2_def w1_def)
  qed
  have ind: "unparsable L (s\<lparr>DefinitionID := d'\<rparr>) = Some dg"
    using assms(4) by (auto simp add: unparsable_def Let_def split: if_splits)
  show ?thesis using crt upd ind unparsable_severity [OF assms(4)] by blast
qed

lemma ParseInt_abc: "ParseInt ''abc'' = Inl ErrSyntax"
  by (simp add: ParseInt_eval)

lemma HasError_Nil [simp]: "\<not> HasError []"
  by (simp add: HasError_def)

lemma Append_Nil [simp]: "Append ds [] = ds"
  by (simp add: Append_def)

text \<open>
  A plan whose second setting is the integer \<open>abc\<close>.
\<close>

theorem unparsable_setting_aborts_write_witness:
  "\<not> HasError (Append (diags w_empty) [])
   \<and> \<lparr>DefinitionID = Some ''max_age'', ValueType = Some ''integer'', Value = Some ''abc'', Children = None\<rparr>
       \<in> set [\<lparr>DefinitionID = Some ''name'', ValueType = Some ''string'', Value = Some ''x'', Children = None\<rparr>,
               \<lparr>DefinitionID = Some ''max_age'', ValueType = Some ''integer'', Value = Some ''abc'', Children = None\<rparr>]
   \<and> unparsable plain_lib
        \<lparr>DefinitionID = Some ''max_age'', ValueType = Some ''integer'', Value = Some ''abc'', Children = None\<rparr>
      = Some \<lparr>severity = SeverityError, summary = ''Invalid Integer Value'',
               detail = msg_not_integer ''abc'' (NumError_Error plain_lib ''abc'' ErrSyntax)\<rparr>
   \<and> fst (Create plain_lib no_client
          ([], \<lparr>ID = None, PolicyID = Some ''p1'',
                 Settings = Some [\<lparr>DefinitionID = Some ''name'', ValueType = Some ''string'', Value = Some ''x'', Children = None\<rparr>,
                                  \<lparr>DefinitionID = Some ''max_age'', ValueType = Some ''integer'', Value = Some ''abc'', Children = None\<rparr>]\<rparr>)
          w_empty) = StateUntouched
   \<and> requests (snd (Create plain_lib no_client
          ([], \<lparr>ID = None, PolicyID = Some ''p1'',
                 Settings = Some [\<lparr>DefinitionID = Some ''name'', ValueType = Some ''string'', Value = Some ''x'', Children = None\<rparr>,
                                  \<lparr>DefinitionID = Some ''max_age'', ValueType = Some ''integer'', Value = Some ''abc'', Children = None\<rparr>]\<rparr>)
          w_empty)) = []"
proof -
  let ?s = "\<lparr>DefinitionID = Some ''max_age'', ValueType = Some ''integer'', Value = Some ''abc'', Children = None\<rparr>"
  let ?ss = "[\<lparr>DefinitionID = Some ''name'', ValueType = Some ''string'', Value = Some ''x'', Children = None\<rparr>, ?s]"
  let ?data = "\<lparr>ID = None, PolicyID = Some ''p1'', Settings = Some ?ss\<rparr>"
  let ?dg = "\<lparr>severity = SeverityError, summary = ''Invalid Integer Value'',
               detail = msg_not_integer ''abc'' (NumError_Error plain_lib ''abc'' ErrSyntax)\<rparr>"
  have h1: "\<not> HasError (Append (diags w_empty) [])" by (simp add: w_empty_def)
  have h2: "Settings ?data = Some ?ss" by simp
  have h3: "?s \<in> set ?ss" by simp
  have h4: "unparsable plain_lib ?s = Some ?dg" by (simp add: unparsable_def Let_def ParseInt_abc)
  from unparsable_setting_aborts_write [OF h1 h2 h3 h4, of no_client None]
  have "fst (Create plain_lib no_client ([], ?data) w_empty) = StateUntouched"
       "requests (snd (Create plain_lib no_client ([], ?data) w_empty)) = requests w_empty"
    by blast+
  then show ?thesis using h1 h3 h4 by (simp add: w_empty_def)
qed

text \<open>
  C4 as stated has the error identify the definition id and the position of the setting.
  The plan with the integer \<open>abc\<close> under the id \<open>alpha\<close> at position 0 and the plan with
  it under the id \<open>gamma\<close> at position 1 end with the same diagnostics, word for word.
\<close>

theorem error_names_no_definition_counterexample:
  "diags (snd (Create plain_lib no_client
      ([], \<lparr>ID = None, PolicyID = Some ''p1'',
             Settings = Some [\<lparr>DefinitionID = Some ''alpha'', ValueType = Some ''integer'', Value = Some ''abc'', Children = None\<rparr>]\<rparr>)
      \<lparr>diags = [], logs = [], requests = []\<rparr>))
   = [\<lparr>severity = SeverityError, summary = ''Invalid Integer Value'',
       detail = ''Could not parse '' @ [CHR 0x27] @ ''abc'' @ [CHR 0x27] @
                '' as integer: strconv.ParseInt: parsing '' @ [CHR 0x22] @ ''abc'' @ [CHR 0x22] @
                '': invalid syntax''\<rparr>]
   \<and> diags (snd (Create plain_lib no_client
      ([], \<lparr>ID = None, PolicyID = Some ''p1'',
             Settings = Some [\<lparr>DefinitionID = Some ''beta'', ValueType = Some ''string'', Value = Some ''x'', Children = None\<rparr>,
                              \<lparr>DefinitionID = Some ''gamma'', ValueType = Some ''integer'', Value = Some ''abc'', Children = None\<rparr>]\<rparr>)
      \<lparr>diags = [], logs = [], requests = []\<rparr>))
   = [\<lparr>severity = SeverityError, summary = ''Invalid Integer Value'',
       detail = ''Could not parse '' @ [CHR 0x27] @ ''abc'' @ [CHR 0x27] @
                '' as integer: strconv.ParseInt: parsing '' @ [CHR 0x22] @ ''abc'' @ [CHR 0x22] @
                '': invalid syntax''\<rparr>]"
  by (simp add: Create_def Let_def convertToAPISettings_def convertSettingInstance_integer
        convertSettingInstance_string ParseInt_abc AddError_def HasError_def
        msg_not_integer_def NumError_Error_def plain_lib_def plain_Quote_def)

section \<open>Delete and Read\<close>

lemma doRequest_requests:
  "requests (snd (doRequest c m p b w)) = requests w @ [\<lparr>http_method = m, http_path = p, http_body = b\<rparr>]"
  "diags (snd (doRequest c m p b w)) = diags w"
  by (simp_all add: doRequest_def Let_def)

lemma UpdateSettingsCatalogPolicySettings_requests:
  "requests (snd (UpdateSettingsCatalogPolicySettings c policyId settings w)) =
     requests w @ [\<lparr>http_method = ''PUT'', http_path = policy_path policyId @ ''/settings'',
                    http_body = Some (JObject [(''settings'',
                       case settings of None \<Rightarrow> JNull
                       | Some xs \<Rightarrow> JArray (map marshal_SettingsCatalogPolicySetting xs))])\<rparr>]"
  by (simp add: UpdateSettingsCatalogPolicySettings_def Put_def doRequest_def Let_def
           split: sum.splits prod.splits)

lemma DeleteSettingsCatalogPolicy_requests:
  "requests (snd (DeleteSettingsCatalogPolicy c policyId w)) =
     requests w @ [\<lparr>http_method = ''DELETE'', http_path = policy_path policyId, http_body = None\<rparr>]"
  by (simp add: DeleteSettingsCatalogPolicy_def client_Delete_def doRequest_def Let_def
           split: sum.splits prod.splits)

text \<open>
  Claim C8.  When the prior state was read without error, \<open>Delete\<close> makes exactly one
  request: a \<open>PUT\<close> to the settings endpoint of the policy whose body is the object with
  the single member \<open>settings\<close>, the empty array.  When reading the state failed it makes
  none.  In no case is one of its requests a \<open>DELETE\<close>, which is the request that
  \<open>DeleteSettingsCatalogPolicy\<close> would make on the policy itself.
\<close>

theorem delete_clears_settings_only:
  "(\<not> HasError (Append (diags w0) sd) \<longrightarrow>
      requests (Delete c (sd, data) w0) =
        requests w0 @ [\<lparr>http_method = ''PUT'',
                         http_path = policy_path (ValueString (PolicyID data)) @ ''/settings'',
                         http_body = Some (JObject [(''settings'', JArray [])])\<rparr>])
   \<and> (HasError (Append (diags w0) sd) \<longrightarrow> requests (Delete c (sd, data) w0) = requests w0)
   \<and> (\<forall>r \<in> set (drop (length (requests w0)) (requests (Delete c (sd, data) w0))).
         http_method r \<noteq> ''DELETE'')
   \<and> requests (snd (DeleteSettingsCatalogPolicy c p w)) =
        requests w @ [\<lparr>http_method = ''DELETE'', http_path = policy_path p, http_body = None\<rparr>]"
proof -
  let ?put = "\<lparr>http_method = ''PUT'',
               http_path = policy_path (ValueString (PolicyID data)) @ ''/settings'',
               http_body = Some (JObject [(''settings'', JArray [])])\<rparr>"
  define w1 where "w1 = w0\<lparr>diags := Append (diags w0) sd\<rparr>"
  define w2 where "w2 = tflog LevelDebug ''Deleting Settings Catalog policy settings''
                         [(''policy_id'', VString (ValueString (PolicyID data)))] w1"
  obtain e w3 where u: "UpdateSettingsCatalogPolicySettings c (ValueString (PolicyID data)) (Some []) w2 = (e, w3)"
    by (cases "UpdateSettingsCatalogPolicySettings c (ValueString (PolicyID data)) (Some []) w2")
  have r3: "requests w3 = requests w0 @ [?put]"
    using UpdateSettingsCatalogPolicySettings_requests [of c "ValueString (PolicyID data)" "Some []" w2] u
    by (simp add: w2_def w1_def)
  have ok: "\<not> HasError (Append (diags w0) sd) \<Longrightarrow> requests (Delete c (sd, data) w0) = requests w0 @ [?put]"
    using u r3
    by (simp add: Delete_def Let_def w1_def [symmetric] w2_def [symmetric] split: option.splits)
      (simp add: w1_def)
  have err: "HasError (Append (diags w0) sd) \<Longrightarrow> requests (Delete c (sd, data) w0) = requests w0"
    by (simp add: Delete_def Let_def)
  have nodel: "\<forall>r \<in> set (drop (length (requests w0)) (requests (Delete c (sd, data) w0))).
         http_method r \<noteq> ''DELETE''"
    using ok err by (cases "HasError (Append (diags w0) sd)") simp_all
  show ?thesis
    using ok err nodel DeleteSettingsCatalogPolicy_requests by blast
qed

text \<open>
  Deleting the settings of policy \<open>p1\<close>.
\<close>

theorem delete_clears_settings_only_witness:
  "\<not> HasError (Append (diags w_empty) [])
   \<and> requests (Delete no_client ([], \<lparr>ID = Some ''p1'', PolicyID = Some ''p1'', Settings = None\<rparr>) w_empty)
     = [\<lparr>http_method = ''PUT'',
         http_path = ''/deviceManagement/configurationPolicies('' @ [CHR 0x27] @ ''p1'' @ [CHR 0x27] @ '')/settings'',
         http_body = Some (JObject [(''settings'', JArray [])])\<rparr>]"
proof -
  have h: "\<not> HasError (Append (diags w_empty) [])" by (simp add: w_empty_def)
  from delete_clears_settings_only
         [of w_empty "[]" no_client "\<lparr>ID = Some ''p1'', PolicyID = Some ''p1'', Settings = None\<rparr>"] h
  show ?thesis by (simp add: w_empty_def policy_path_def)
qed

lemma field_of_key_GraphResponse:
  "field_of_key ''@odata.context'' = None"
  "field_of_key ''@odata.type'' = Some F_ODataType"
  "field_of_key ''@odata.nextLink'' = None"
  "field_of_key ''value'' = None"
  "field_of_key ''id'' = Some F_ID"
  "field_of_key ''error'' = None"
  by (simp_all add: field_of_key_def policy_tags_def ascii_lower_def)

lemma unmarshal_members_append:
  "unmarshal_members c (xs @ ys) p err =
     (case unmarshal_members c xs p err of (p', err') \<Rightarrow> unmarshal_members c ys p' err')"
  by (induction xs arbitrary: p err) (auto split: sum.splits)

lemma unmarshal_ignored:
  "unmarshal_members c (omitempty_string ''@odata.context'' s) p err = (p, err)"
  "unmarshal_members c (omitempty_string ''@odata.nextLink'' s) p err = (p, err)"
  "unmarshal_members c (case v of None \<Rightarrow> [] | Some j \<Rightarrow> [(''value'', j)]) p err = (p, err)"
  "unmarshal_members c (case g of None \<Rightarrow> [] | Some e \<Rightarrow> [(''error'', marshal_GraphError e)]) p err = (p, err)"
  by (simp_all add: omitempty_string_def unmarshal_member_def field_of_key_GraphResponse
        split: option.splits)

lemma unmarshal_ODataType:
  "unmarshal_members c (omitempty_string ''@odata.type'' s) (SettingsCatalogPolicy [] b cc d e f g h i j k l) err
     = (SettingsCatalogPolicy s b cc d e f g h i j k l, err)"
  by (simp add: omitempty_string_def unmarshal_member_def field_of_key_GraphResponse)

lemma unmarshal_ID:
  "unmarshal_members c (omitempty_string ''id'' s) (SettingsCatalogPolicy a [] cc d e f g h i j k l) err
     = (SettingsCatalogPolicy a s cc d e f g h i j k l, err)"
  by (simp add: omitempty_string_def unmarshal_member_def field_of_key_GraphResponse)

lemma Unmarshal_policy_GraphResponse:
  "Unmarshal_policy c (marshal_GraphResponse r) =
     Inr (SettingsCatalogPolicy (gr_ODataType r) (gr_ID r) [] [] [] [] [] [] [] 0 [] None)"
  by (simp add: Unmarshal_policy_def marshal_GraphResponse_def unmarshal_members_append
        unmarshal_ignored unmarshal_ODataType unmarshal_ID del: unmarshal_members.simps)

lemma GetSettingsCatalogPolicy_eq:
  "GetSettingsCatalogPolicy c policyId w =
     (case roundTrip c \<lparr>http_method = ''GET'', http_path = policy_path policyId @ ''?$expand=settings'',
                         http_body = None\<rparr> of
        Inl err \<Rightarrow> Inl (Errorf_w ''failed to get settings catalog policy: '' err)
      | Inr resp \<Rightarrow> Inr (SettingsCatalogPolicy (gr_ODataType resp) (gr_ID resp) [] [] [] [] [] [] [] 0 [] None),
      w\<lparr>requests := requests w @
           [\<lparr>http_method = ''GET'', http_path = policy_path policyId @ ''?$expand=settings'',
             http_body = None\<rparr>]\<rparr>)"
  by (simp add: GetSettingsCatalogPolicy_def Get_def doRequest_def Let_def Unmarshal_policy_GraphResponse
           split: sum.splits)

lemma GetSettingsCatalogPolicy_no_settings:
  "fst (GetSettingsCatalogPolicy c policyId w) = Inr policy \<Longrightarrow> pol_Settings policy = []"
  by (auto simp: GetSettingsCatalogPolicy_eq split: sum.splits)

lemma GetSettingsCatalogPolicy_wrapped:
  "fst (GetSettingsCatalogPolicy c policyId w) = Inl err \<Longrightarrow> \<not> is_NotFound err"
  by (auto simp: GetSettingsCatalogPolicy_eq Errorf_w_def is_NotFound_def split: sum.splits)

text \<open>
  Claim C10.  Whatever the service answers, the policy that \<open>GetSettingsCatalogPolicy\<close>
  returns has an empty list of settings: the answer passes through \<open>GraphResponse\<close>, which
  has no member for them.  When the state was read without error and the client returns a
  policy whose list of settings is empty, \<open>Read\<close> removes the resource and adds no
  diagnostic.  \<open>Read\<close> never records a state, so none whose list of settings is empty.
\<close>

theorem read_removes_resource_without_settings:
  "(\<forall>policy. fst (GetSettingsCatalogPolicy c (ValueString (PolicyID data)) w) = Inr policy
       \<longrightarrow> pol_Settings policy = [])
   \<and> (\<not> HasError (Append (diags w0) sd)
        \<and> fst (GetSettingsCatalogPolicy c (ValueString (PolicyID data))
                 (tflog LevelDebug ''Reading Settings Catalog policy settings''
                    [(''policy_id'', VString (ValueString (PolicyID data)))]
                    (w0\<lparr>diags := Append (diags w0) sd\<rparr>))) = Inr policy
        \<and> pol_Settings policy = []
      \<longrightarrow> fst (Read L c (sd, data) w0) = RemoveResource
          \<and> diags (snd (Read L c (sd, data) w0)) = Append (diags w0) sd)
   \<and> (\<forall>data'. fst (Read L c (sd, data) w0) \<noteq> StateSet data')"
proof -
  define w1 where "w1 = w0\<lparr>diags := Append (diags w0) sd\<rparr>"
  define w2 where "w2 = tflog LevelDebug ''Reading Settings Catalog policy settings''
                         [(''policy_id'', VString (ValueString (PolicyID data)))] w1"
  obtain r w3 where g: "GetSettingsCatalogPolicy c (ValueString (PolicyID data)) w2 = (r, w3)"
    by (cases "GetSettingsCatalogPolicy c (ValueString (PolicyID data)) w2")
  have d3: "diags w3 = diags w2"
    using g by (auto simp: GetSettingsCatalogPolicy_eq)
  have a: "\<forall>policy. fst (GetSettingsCatalogPolicy c (ValueString (PolicyID data)) w) = Inr policy
       \<longrightarrow> pol_Settings policy = []"
    using GetSettingsCatalogPolicy_no_settings by blast
  have b: "fst (Read L c (sd, data) w0) = RemoveResource
          \<and> diags (snd (Read L c (sd, data) w0)) = Append (diags w0) sd"
    if "\<not> HasError (Append (diags w0) sd)" "r = Inr policy" "pol_Settings policy = []"
    using that g d3
    by (simp add: Read_def Let_def w1_def [symmetric] w2_def [symmetric]) (simp add: w2_def w1_def)
  have never: "fst (Read L c (sd, data) w0) \<noteq> StateSet data'" for data'
  proof (cases "HasError (diags w1)")
    case True
    then show ?thesis by (simp add: Read_def Let_def w1_def)
  next
    case False
    show ?thesis
    proof (cases r)
      case (Inl err)
      then show ?thesis
        using False g by (simp add: Read_def Let_def w1_def [symmetric] w2_def [symmetric])
    next
      case (Inr p)
      then have "pol_Settings p = []"
        using GetSettingsCatalogPolicy_no_settings [of c "ValueString (PolicyID data)" w2 p] g by simp
      then show ?thesis
        using False g Inr by (simp add: Read_def Let_def w1_def [symmetric] w2_def [symmetric])
    qed
  qed
  show ?thesis
    using a b never g by (simp add: w2_def w1_def)
qed

text \<open>
  The service answers the GET with the policy \<open>p1\<close>.
\<close>

theorem read_removes_resource_without_settings_witness:
  "\<not> HasError (Append (diags w_empty) [])
   \<and> fst (GetSettingsCatalogPolicy
        \<lparr>roundTrip = (\<lambda>r. Inr \<lparr>gr_ODataContext = ''https://graph.microsoft.com/beta/$metadata#deviceManagement/configurationPolicies/$entity'',
                                 gr_ODataType = [], gr_ODataNextLink = [], gr_Value = None,
                                 gr_ID = ''p1'', gr_Error = None\<rparr>),
         json_member = (\<lambda>k v p. Inl ''no decoder'')\<rparr>
        ''p1''
        (tflog LevelDebug ''Reading Settings Catalog policy settings'' [(''policy_id'', VString ''p1'')]
           (w_empty\<lparr>diags := Append (diags w_empty) []\<rparr>)))
     = Inr (SettingsCatalogPolicy [] ''p1'' [] [] [] [] [] [] [] 0 [] None)
   \<and> pol_Settings (SettingsCatalogPolicy [] ''p1'' [] [] [] [] [] [] [] 0 [] None) = []
   \<and> fst (Read plain_lib
        \<lparr>roundTrip = (\<lambda>r. Inr \<lparr>gr_ODataContext = ''https://graph.microsoft.com/beta/$metadata#deviceManagement/configurationPolicies/$entity'',
                                 gr_ODataType = [], gr_ODataNextLink = [], gr_Value = None,
                                 gr_ID = ''p1'', gr_Error = None\<rparr>),
         json_member = (\<lambda>k v p. Inl ''no decoder'')\<rparr>
        ([], \<lparr>ID = Some ''p1'', PolicyID = Some ''p1'',
               Settings = Some [\<lparr>DefinitionID = Some ''ssid'', ValueType = Some ''string'',
                                 Value = Some ''office'', Children = None\<rparr>]\<rparr>)
        w_empty) = RemoveResource"
proof -
  let ?c = "\<lparr>roundTrip = (\<lambda>r. Inr \<lparr>gr_ODataContext = ''https://graph.microsoft.com/beta/$metadata#deviceManagement/configurationPolicies/$entity'',
                                 gr_ODataType = [], gr_ODataNextLink = [], gr_Value = None,
                                 gr_ID = ''p1'', gr_Error = None\<rparr>),
         json_member = (\<lambda>k v p. Inl ''no decoder'')\<rparr>"
  let ?data = "\<lparr>ID = Some ''p1'', PolicyID = Some ''p1'',
               Settings = Some [\<lparr>DefinitionID = Some ''ssid'', ValueType = Some ''string'',
                                 Value = Some ''office'', Children = None\<rparr>]\<rparr>"
  let ?p = "SettingsCatalogPolicy [] ''p1'' [] [] [] [] [] [] [] 0 [] None"
  have h1: "\<not> HasError (Append (diags w_empty) [])" by (simp add: w_empty_def)
  have h2: "fst (GetSettingsCatalogPolicy ?c (ValueString (PolicyID ?data))
                 (tflog LevelDebug ''Reading Settings Catalog policy settings''
                    [(''policy_id'', VString (ValueString (PolicyID ?data)))]
                    (w_empty\<lparr>diags := Append (diags w_empty) []\<rparr>))) = Inr ?p"
    by (simp add: GetSettingsCatalogPolicy_eq)
  have h3: "pol_Settings ?p = []" by simp
  have "fst (Read plain_lib ?c ([], ?data) w_empty) = RemoveResource"
    using read_removes_resource_without_settings [of ?c ?data _ w_empty "[]" ?p plain_lib] h1 h2 h3
    by blast
  then show ?thesis using h1 h2 h3 by simp
qed

end
